theory Spec2Isabelle
  imports Complex_Main "HOL-Library.Sublist" "HOL-Library.Multiset" "HOL-Library.AList"
    "HOL-Library.Product_Lexorder" "HOL-Library.Word"
begin

section \<open>JavaScript values used by the frontend\<close>

text \<open>
  The frontend (\<^verbatim>\<open>frontend/src/App.jsx\<close> and the recommendations page) works on
  JavaScript strings, on object fields that may be absent, and on the truthiness of
  values.

  A JavaScript string is a sequence of 16-bit code units. The strings that hold data
  (the values of the form, the option lists, the text fields of a posting, the filter
  terms) are lists of code units here; \<open>length\<close> is then \<^verbatim>\<open>.length\<close>. The strings
  the source writes as literals (field names, messages) are ASCII and stay values of
  \<^typ>\<open>string\<close>; \<open>str\<close> gives the code units of such a literal. An object field
  that may be \<^verbatim>\<open>undefined\<close> is an option, with \<^term>\<open>None\<close> for \<^verbatim>\<open>undefined\<close>.
\<close>

type_synonym code_unit = "16 word"

type_synonym jsstring = "code_unit list"

definition str :: "string \<Rightarrow> jsstring" where
  "str s = map (\<lambda>c. of_nat (of_char c)) s"

text \<open>
  \<^verbatim>\<open>String.prototype.trim\<close> removes the leading and trailing code units that are
  white space or line terminators of ECMAScript: TAB, LF, VT, FF, CR, SPACE, NBSP
  (U+00A0), the other space separators of Unicode (U+1680, U+2000 to U+200A, U+202F,
  U+205F, U+3000), the line and paragraph separators (U+2028, U+2029) and the byte
  order mark (U+FEFF). All of them are single code units. (The space separators are
  those of Unicode 6.3 and later, which every current browser implements.)
\<close>

definition is_whitespace :: "code_unit \<Rightarrow> bool" where
  "is_whitespace c \<longleftrightarrow>
     c \<in> set [0x0009, 0x000A, 0x000B, 0x000C, 0x000D, 0x0020, 0x00A0, 0x1680,
               0x2000, 0x2001, 0x2002, 0x2003, 0x2004, 0x2005, 0x2006, 0x2007, 0x2008,
               0x2009, 0x200A, 0x2028, 0x2029, 0x202F, 0x205F, 0x3000, 0xFEFF]"

definition trim :: "jsstring \<Rightarrow> jsstring" where
  "trim s = rev (dropWhile is_whitespace (rev (dropWhile is_whitespace s)))"

text \<open>
  \<^verbatim>\<open>String.prototype.toLowerCase\<close> maps a string by the case tables of the Unicode
  version the browser implements; it can change the number of code units and reads the
  context of a letter (the final sigma). The tables are not part of the repository, so
  the functions that call \<open>toLowerCase\<close> take it as their first argument, \<open>lower\<close>,
  and what is proved of them holds for every function from strings to strings.
\<close>

text \<open>\<^verbatim>\<open>hay.startsWith(needle)\<close> and \<^verbatim>\<open>hay.includes(needle)\<close>, by scanning \<open>hay\<close>.\<close>

fun startsWith :: "'c list \<Rightarrow> 'c list \<Rightarrow> bool" where
  "startsWith hay [] = True"
| "startsWith [] (n # ns) = False"
| "startsWith (h # hs) (n # ns) = (h = n \<and> startsWith hs ns)"

fun js_includes :: "'c list \<Rightarrow> 'c list \<Rightarrow> bool" where
  "js_includes [] needle = (needle = [])"
| "js_includes (h # hs) needle = (startsWith (h # hs) needle \<or> js_includes hs needle)"

text \<open>
  The values an expression of the browse filter can take: \<^verbatim>\<open>undefined\<close> (an optional
  chain \<^verbatim>\<open>x?.f()\<close> on an absent field) or a boolean. \<open>truthy\<close> is JavaScript's ToBoolean
  on them; \<open>js_or\<close> and \<open>js_and\<close> are \<^verbatim>\<open>||\<close> and \<^verbatim>\<open>&&\<close>, which return one of their
  operands.
\<close>

datatype jsval = Undefined | JBool bool

fun truthy :: "jsval \<Rightarrow> bool" where
  "truthy Undefined = False"
| "truthy (JBool b) = b"

definition js_or :: "jsval \<Rightarrow> jsval \<Rightarrow> jsval" where
  "js_or a b = (if truthy a then a else b)"

definition js_and :: "jsval \<Rightarrow> jsval \<Rightarrow> jsval" where
  "js_and a b = (if truthy a then b else a)"

text \<open>\<^verbatim>\<open>!s\<close> for a string \<open>s\<close>: the empty string is the only falsy string.\<close>

definition js_not_str :: "jsstring \<Rightarrow> jsval" where
  "js_not_str s = JBool (s = [])"

section \<open>Postings and recommendations as the pages receive them\<close>

text \<open>
  An entry of \<^verbatim>\<open>browse_table\<close> and a recommendation, with the fields the pages read.
  The pages read every text field through \<^verbatim>\<open>?.\<close> or render it as it is, so each may be
  absent. \<open>confidence_score\<close> is the engine's integer score; it is absent in a
  response of the first version of the service.
\<close>

record internship =
  id' :: nat
  company :: "jsstring option"
  role :: "jsstring option"
  location :: "jsstring option"
  industry :: "jsstring option"
  required_skills :: "jsstring option"

record recommendation = internship +
  confidence_score :: "int option"
  match_reasoning :: "jsstring option"

section \<open>Confidence badge\<close>

text \<open>
  \<^verbatim>\<open>confidence >= n\<close> on a number that may be \<^verbatim>\<open>undefined\<close>: the comparison of
  \<^verbatim>\<open>undefined\<close> with a number is false.
\<close>

fun js_ge :: "int option \<Rightarrow> int \<Rightarrow> bool" where
  "js_ge None n = False"
| "js_ge (Some c) n = (n \<le> c)"

definition getConfidenceColor :: "int option \<Rightarrow> string" where
  "getConfidenceColor confidence =
     (if js_ge confidence 80 then ''var(--success-500)''
      else if js_ge confidence 60 then ''var(--warning-500)''
      else ''var(--error-500)'')"

definition getConfidenceLabel :: "int option \<Rightarrow> string" where
  "getConfidenceLabel confidence =
     (if js_ge confidence 80 then ''Excellent Match''
      else if js_ge confidence 60 then ''Good Match''
      else ''Potential Match'')"

text \<open>
  The badge of \<open>renderRecommendationCard\<close>: its background colour and the label that
  follows the score in its text.
\<close>

definition confidence_badge :: "'a recommendation_scheme \<Rightarrow> string \<times> string" where
  "confidence_badge rec =
     (getConfidenceColor (confidence_score rec), getConfidenceLabel (confidence_score rec))"

section \<open>Browse filter\<close>

text \<open>
  \<^verbatim>\<open>field?.toLowerCase().includes(term.toLowerCase())\<close>: \<^verbatim>\<open>undefined\<close> when the field is
  absent (the chain stops at \<^verbatim>\<open>?.\<close>), else the result of \<open>js_includes\<close>.
\<close>

definition field_includes ::
  "(jsstring \<Rightarrow> jsstring) \<Rightarrow> jsstring option \<Rightarrow> jsstring \<Rightarrow> jsval" where
  "field_includes lower field term' =
     (case field of
        None \<Rightarrow> Undefined
      | Some s \<Rightarrow> JBool (js_includes (lower s) (lower term')))"

definition matchesSector ::
  "(jsstring \<Rightarrow> jsstring) \<Rightarrow> jsstring \<Rightarrow> 'a internship_scheme \<Rightarrow> jsval" where
  "matchesSector lower filterSector internship' =
     js_or (js_not_str filterSector) (field_includes lower (industry internship') filterSector)"

definition matchesLocation ::
  "(jsstring \<Rightarrow> jsstring) \<Rightarrow> jsstring \<Rightarrow> 'a internship_scheme \<Rightarrow> jsval" where
  "matchesLocation lower filterLocation internship' =
     js_or (js_not_str filterLocation)
           (field_includes lower (location internship') filterLocation)"

definition matchesSearch ::
  "(jsstring \<Rightarrow> jsstring) \<Rightarrow> jsstring \<Rightarrow> 'a internship_scheme \<Rightarrow> jsval" where
  "matchesSearch lower searchTerm internship' =
     js_or (js_or (js_or (js_not_str searchTerm)
                         (field_includes lower (role internship') searchTerm))
                  (field_includes lower (company internship') searchTerm))
           (field_includes lower (required_skills internship') searchTerm)"

definition filteredBrowseTable ::
  "(jsstring \<Rightarrow> jsstring) \<Rightarrow> jsstring \<Rightarrow> jsstring \<Rightarrow> jsstring
     \<Rightarrow> 'a internship_scheme list \<Rightarrow> 'a internship_scheme list" where
  "filteredBrowseTable lower filterSector filterLocation searchTerm browseTable =
     filter (\<lambda>internship'.
               truthy (js_and (js_and (matchesSector lower filterSector internship')
                                      (matchesLocation lower filterLocation internship'))
                              (matchesSearch lower searchTerm internship')))
            browseTable"

text \<open>
  What the filter is meant to compute, stated without the JavaScript operators: \<open>needle\<close>
  occurs in \<open>field\<close> as a contiguous substring once both are lower-cased by
  \<open>toLowerCase\<close>; an absent field contains nothing.
\<close>

definition contains_ci :: "(jsstring \<Rightarrow> jsstring) \<Rightarrow> jsstring option \<Rightarrow> jsstring \<Rightarrow> bool" where
  "contains_ci lower field needle =
     (case field of
        None \<Rightarrow> False
      | Some s \<Rightarrow> (\<exists>before after. lower s = before @ lower needle @ after))"

definition entry_visible ::
  "(jsstring \<Rightarrow> jsstring) \<Rightarrow> jsstring \<Rightarrow> jsstring \<Rightarrow> jsstring \<Rightarrow> 'a internship_scheme \<Rightarrow> bool" where
  "entry_visible lower sector loc search e \<longleftrightarrow>
     (sector = [] \<or> contains_ci lower (industry e) sector) \<and>
     (loc = [] \<or> contains_ci lower (location e) loc) \<and>
     (search = [] \<or> contains_ci lower (role e) search \<or> contains_ci lower (company e) search
        \<or> contains_ci lower (required_skills e) search)"


section \<open>Dropdowns of the browse section\<close>

text \<open>
  \<^verbatim>\<open>[...new Set(xs)]\<close>: a JavaScript \<open>Set\<close> keeps its elements in insertion order
  and \<open>add\<close> leaves the set as it is when the element is already in it, so spreading
  the set lists each element once, at the place of its first occurrence.
\<close>

definition set_add :: "'a list \<Rightarrow> 'a \<Rightarrow> 'a list" where
  "set_add acc x = (if x \<in> set acc then acc else acc @ [x])"

definition new_Set :: "'a list \<Rightarrow> 'a list" where
  "new_Set xs = foldl set_add [] xs"

text \<open>
  An \<^verbatim>\<open><option value={v}>{v}</option>\<close> element. The two filter dropdowns of
  \<open>renderBrowseTable\<close> start with a fixed option of empty value ('All Industries',
  'All Locations'), followed by one option per element of the set.
\<close>

record select_option =
  option_value :: "jsstring option"
  option_label :: "jsstring option"

definition industry_options :: "'a internship_scheme list \<Rightarrow> select_option list" where
  "industry_options browseTable =
     \<lparr>option_value = Some [], option_label = Some (str ''All Industries'')\<rparr> #
     map (\<lambda>i. \<lparr>option_value = i, option_label = i\<rparr>) (new_Set (map industry browseTable))"

definition location_options :: "'a internship_scheme list \<Rightarrow> select_option list" where
  "location_options browseTable =
     \<lparr>option_value = Some [], option_label = Some (str ''All Locations'')\<rparr> #
     map (\<lambda>l. \<lparr>option_value = l, option_label = l\<rparr>) (new_Set (map location browseTable))"

section \<open>The candidate form (App.jsx)\<close>

subsection \<open>State\<close>

text \<open>
  \<open>formData\<close> is a JavaScript object; \<open>handleInputChange\<close> writes it through a
  computed key, so it is not a record with a fixed set of fields here but a list of
  keys with their values, in the order in which the keys were first written (the order
  of \<^verbatim>\<open>Object.keys\<close>). \<open>map_of obj k\<close> reads \<^verbatim>\<open>obj[k]\<close>, with \<^term>\<open>None\<close> for
  \<^verbatim>\<open>undefined\<close>; \<open>AList.update k v obj\<close> is \<^verbatim>\<open>{ ...obj, [k]: v }\<close>: the value of an
  existing key is replaced in place, a new key is added at the end. The keys are the
  field names the source writes; the values are the strings the user entered.
\<close>

type_synonym form_data = "(string \<times> jsstring) list"

definition initial_formData :: form_data where
  "initial_formData =
     [(''skills'', []), (''education_level'', []), (''sector_interest'', []),
      (''location_preference'', []), (''experience'', []), (''aspirations'', [])]"

record dropdown_options =
  education_levels :: "jsstring list"
  sectors :: "jsstring list"
  locations :: "jsstring list"
  skills :: "jsstring list"

text \<open>The body of a \<^verbatim>\<open>/health\<close> response, with the fields the form reads.\<close>

record engine_status =
  initialized :: "bool option"
  total_internships :: "nat option"

record health =
  health_status :: "string option"
  engine_status :: "engine_status option"

record app_state =
  step :: string
  formData :: form_data
  error :: string
  loading :: bool
  options :: dropdown_options
  systemHealth :: "health option"
  formValidation :: "(string \<times> string option) list"

definition initial_app_state :: app_state where
  "initial_app_state =
     \<lparr>step = ''form'', formData = initial_formData, error = [], loading = False,
      options = \<lparr>education_levels = [], sectors = [], locations = [], skills = []\<rparr>,
      systemHealth = None, formValidation = []\<rparr>"

subsection \<open>Validation\<close>

text \<open>
  The message of a required field is computed from the field's name, which is one of
  the four names of \<open>requiredFields\<close>: lower-case ASCII letters and the underscore.
  \<open>replace\<close> and \<open>toUpperCase\<close> are modelled on such names.
\<close>

definition upper_char :: "char \<Rightarrow> char" where
  "upper_char c =
     (case map_of (zip ''abcdefghijklmnopqrstuvwxyz'' ''ABCDEFGHIJKLMNOPQRSTUVWXYZ'') c of
        Some d \<Rightarrow> d
      | None \<Rightarrow> c)"

definition is_word_char :: "char \<Rightarrow> bool" where
  "is_word_char c \<longleftrightarrow>
     c \<in> set ''abcdefghijklmnopqrstuvwxyzABCDEFGHIJKLMNOPQRSTUVWXYZ0123456789_''"

text \<open>\<^verbatim>\<open>s.replace(a, b)\<close> with a string pattern of one character: the first occurrence only.\<close>

fun replace_first :: "char \<Rightarrow> char \<Rightarrow> string \<Rightarrow> string" where
  "replace_first a b [] = []"
| "replace_first a b (c # cs) = (if c = a then b # cs else c # replace_first a b cs)"

text \<open>
  \<^verbatim>\<open>s.replace(/\b\w/g, l => l.toUpperCase())\<close>: every word character that does not follow
  a word character is upper-cased. The flag says whether the previous character was a
  word character.
\<close>

fun capitalize_words :: "bool \<Rightarrow> string \<Rightarrow> string" where
  "capitalize_words prev [] = []"
| "capitalize_words prev (c # cs) =
     (if is_word_char c \<and> \<not> prev then upper_char c else c) # capitalize_words (is_word_char c) cs"

definition required_message :: "string \<Rightarrow> string" where
  "required_message field =
     capitalize_words False (replace_first (CHR ''_'') (CHR '' '') field) @ '' is required''"

definition requiredFields :: "string list" where
  "requiredFields = [''skills'', ''education_level'', ''sector_interest'', ''location_preference'']"

text \<open>
  The test of the \<open>forEach\<close> of \<open>validateForm\<close>,
  \<^verbatim>\<open>!formData[field] || formData[field].trim() === ''\<close>, and one round of the loop.
\<close>

definition field_blank :: "form_data \<Rightarrow> string \<Rightarrow> bool" where
  "field_blank fd field = (case map_of fd field of None \<Rightarrow> True | Some v \<Rightarrow> v = [] \<or> trim v = [])"

definition check_required ::
  "form_data \<Rightarrow> (string \<times> string option) list \<Rightarrow> string \<Rightarrow> (string \<times> string option) list" where
  "check_required fd validation field =
     (if field_blank fd field
      then AList.update field (Some (required_message field)) validation
      else validation)"

text \<open>
  The additional test, \<^verbatim>\<open>formData.skills && formData.skills.length < 2\<close>: it reads the
  length of the value as entered, not trimmed, in code units.
\<close>

definition skills_too_short :: "form_data \<Rightarrow> bool" where
  "skills_too_short fd = (case map_of fd ''skills'' of None \<Rightarrow> False | Some v \<Rightarrow> v \<noteq> [] \<and> length v < 2)"

text \<open>The \<open>validation\<close> object \<open>validateForm\<close> builds.\<close>

definition validation_of :: "form_data \<Rightarrow> (string \<times> string option) list" where
  "validation_of fd =
     (let validation = foldl (check_required fd) [] requiredFields
      in if skills_too_short fd
         then AList.update ''skills'' (Some ''Please enter at least one meaningful skill'') validation
         else validation)"

text \<open>
  \<open>validateForm\<close> stores the object and returns whether it has no key
  (\<^verbatim>\<open>Object.keys(validation).length === 0\<close>).
\<close>

definition validateForm :: "app_state \<Rightarrow> app_state \<times> bool" where
  "validateForm st =
     (let validation = validation_of (formData st)
      in (st\<lparr>formValidation := validation\<rparr>, length (map fst validation) = 0))"

subsection \<open>Input\<close>

text \<open>
  \<open>handleInputChange\<close> writes the field, stores \<^verbatim>\<open>undefined\<close> as the field's
  validation message when it has one (\<^verbatim>\<open>if (formValidation[field])\<close>) and clears the
  general error.
\<close>

definition has_message :: "(string \<times> string option) list \<Rightarrow> string \<Rightarrow> bool" where
  "has_message validation field =
     (case map_of validation field of Some (Some m) \<Rightarrow> m \<noteq> [] | _ \<Rightarrow> False)"

definition handleInputChange :: "app_state \<Rightarrow> string \<Rightarrow> jsstring \<Rightarrow> app_state" where
  "handleInputChange st field v =
     st\<lparr>formData := AList.update field v (formData st),
        formValidation :=
          (if has_message (formValidation st) field
           then AList.update field None (formValidation st)
           else formValidation st),
        error := []\<rparr>"

text \<open>
  The six calls of \<open>renderFormField\<close> in \<open>renderForm\<close>, in their order: the field,
  the label, the type (\<^verbatim>\<open>'select'\<close> renders a \<^verbatim>\<open><select>\<close> without the attribute
  \<^verbatim>\<open>multiple\<close>, so one value is chosen; any other type renders an \<^verbatim>\<open><input>\<close>), the
  options and the placeholder.
\<close>

record form_field =
  field_name :: string
  field_label :: string
  field_type :: string
  field_options :: "jsstring list"
  field_placeholder :: string

definition renderForm_fields :: "app_state \<Rightarrow> form_field list" where
  "renderForm_fields st =
     [\<lparr>field_name = ''skills'', field_label = ''Your Primary Skill'', field_type = ''select'',
       field_options = skills (options st), field_placeholder = ''Select your strongest skill''\<rparr>,
      \<lparr>field_name = ''aspirations'', field_label = ''Career Aspirations'', field_type = ''text'',
       field_options = [],
       field_placeholder = ''e.g., Data Analyst, Marketing Associate, Software Developer''\<rparr>,
      \<lparr>field_name = ''education_level'', field_label = ''Education Level'',
       field_type = ''select'', field_options = education_levels (options st),
       field_placeholder = []\<rparr>,
      \<lparr>field_name = ''sector_interest'', field_label = ''Preferred Industry'',
       field_type = ''select'', field_options = sectors (options st), field_placeholder = []\<rparr>,
      \<lparr>field_name = ''location_preference'', field_label = ''Preferred Location'',
       field_type = ''select'', field_options = locations (options st), field_placeholder = []\<rparr>,
      \<lparr>field_name = ''experience'', field_label = ''Experience Level (Optional)'',
       field_type = ''text'', field_options = [],
       field_placeholder = ''e.g., Fresher, 6 months, 1 year''\<rparr>]"

text \<open>
  A change event of a rendered control: the control of field \<open>f\<close> calls
  \<open>handleInputChange f v\<close> with its new value \<open>v\<close>. A \<^verbatim>\<open><select>\<close> offers the empty
  value and its options; an \<^verbatim>\<open><input>\<close> takes any string.
\<close>

definition can_enter :: "form_field \<Rightarrow> jsstring \<Rightarrow> bool" where
  "can_enter ff v \<longleftrightarrow> (if field_type ff = ''select'' then v \<in> set ([] # field_options ff) else True)"

definition change_event :: "app_state \<Rightarrow> string \<times> jsstring \<Rightarrow> bool" where
  "change_event st ev \<longleftrightarrow>
     list_ex (\<lambda>ff. field_name ff = fst ev \<and> can_enter ff (snd ev)) (renderForm_fields st)"

subsection \<open>Health check and submission\<close>

text \<open>The truthiness of \<^verbatim>\<open>h?.engine_status?.initialized\<close>.\<close>

definition engine_initialized :: "health option \<Rightarrow> bool" where
  "engine_initialized h =
     (case h of
        None \<Rightarrow> False
      | Some d \<Rightarrow> (case engine_status d of None \<Rightarrow> False | Some es \<Rightarrow> initialized es = Some True))"

text \<open>A promise of a request, settled: resolved with a response or rejected with an error.\<close>

datatype ('a, 'e) settled = Resolved 'a | Rejected 'e

text \<open>
  The error object of a failed request, with the fields \<open>handleSubmit\<close> reads:
  \<^verbatim>\<open>err.code\<close>, \<^verbatim>\<open>err.response?.status\<close>, \<^verbatim>\<open>err.response?.data?.error\<close>, \<^verbatim>\<open>err.message\<close>.
\<close>

record error_response =
  http_status :: "nat option"
  data_error :: "string option"

record request_error =
  code :: "string option"
  response :: "error_response option"
  message :: string

definition checkSystemHealth :: "app_state \<Rightarrow> (health, request_error) settled \<Rightarrow> app_state" where
  "checkSystemHealth st outcome =
     (case outcome of
        Resolved d \<Rightarrow>
          (let st1 = st\<lparr>systemHealth := Some d\<rparr>
           in if \<not> engine_initialized (Some d)
              then st1\<lparr>error := ''System is initializing. Please wait a moment and try again.''\<rparr>
              else st1)
      | Rejected err \<Rightarrow>
          st\<lparr>error := ''Unable to connect to recommendation service. Please check if the backend is running.''\<rparr>)"

text \<open>The attribute \<^verbatim>\<open>disabled\<close> of the submit button.\<close>

definition submit_disabled :: "app_state \<Rightarrow> bool" where
  "submit_disabled st \<longleftrightarrow> loading st \<or> \<not> engine_initialized (systemHealth st)"

text \<open>
  \<open>handleSubmit\<close> up to its request: the new state and the payload posted to
  \<^verbatim>\<open>/recommendations\<close>, if any. \<^verbatim>\<open>{ ...formData }\<close> copies the object's own keys.
\<close>

definition handleSubmit_request :: "app_state \<Rightarrow> app_state \<times> form_data option" where
  "handleSubmit_request st =
     (let (st1, ok) = validateForm st
      in if \<not> ok
         then (st1\<lparr>error := ''Please fill in all required fields correctly.''\<rparr>, None)
         else (st1\<lparr>error := [], loading := True, step := ''loading''\<rparr>, Some (formData st1)))"

text \<open>
  A submission of the form by its button (or by the Enter key, which the browser
  routes through the form's submit button): a disabled button raises no submit event.
\<close>

definition submit_form :: "app_state \<Rightarrow> app_state \<times> form_data option" where
  "submit_form st = (if submit_disabled st then (st, None) else handleSubmit_request st)"

text \<open>The message the \<open>catch\<close> block of \<open>handleSubmit\<close> chooses.\<close>

definition errorMessage :: "request_error \<Rightarrow> string" where
  "errorMessage err =
     (if code err = Some ''ECONNABORTED''
        then ''Request timed out. The server might be busy. Please try again.''
      else if (case response err of None \<Rightarrow> False | Some r \<Rightarrow> http_status r = Some 503)
        then ''Service temporarily unavailable. Please wait a moment and try again.''
      else if (case response err of
                 None \<Rightarrow> False
               | Some r \<Rightarrow> (case data_error r of None \<Rightarrow> False | Some e \<Rightarrow> e \<noteq> []))
        then (case response err of
                None \<Rightarrow> []
              | Some r \<Rightarrow> (case data_error r of None \<Rightarrow> [] | Some e \<Rightarrow> e))
      else if js_includes (message err) ''Network Error''
        then ''Unable to connect to the server. Please check your connection and ensure the backend is running.''
      else ''An unexpected error occurred. Please try again.'')"

text \<open>\<open>handleSubmit\<close> after a rejected request: the \<open>catch\<close> and \<open>finally\<close> blocks.\<close>

definition handleSubmit_rejected :: "app_state \<Rightarrow> request_error \<Rightarrow> app_state" where
  "handleSubmit_rejected st err =
     st\<lparr>error := errorMessage err, step := ''form'', loading := False\<rparr>"

text \<open>
  \<open>loadOptions\<close>: the four lists of the option endpoints are stored; each request
  falls back to the empty list on its own, and a failure of the whole block sets the
  general error.
\<close>

definition loadOptions :: "app_state \<Rightarrow> (dropdown_options, unit) settled \<Rightarrow> app_state" where
  "loadOptions st outcome =
     (case outcome of
        Resolved opts \<Rightarrow> st\<lparr>options := opts\<rparr>
      | Rejected u \<Rightarrow> st\<lparr>error := ''Failed to load form options. Some features may be limited.''\<rparr>)"

text \<open>
  What can happen to the form while it is shown: a control changes, the option lists or
  the health check arrive, the form is submitted, a request fails. (A request that
  succeeds leaves the form for the recommendations page.) A change no rendered control
  can raise leaves the state as it is.
\<close>

datatype app_event =
    Change string jsstring
  | OptionsSettled "(dropdown_options, unit) settled"
  | HealthSettled "(health, request_error) settled"
  | SubmitForm
  | RequestRejected request_error

fun app_step :: "app_state \<Rightarrow> app_event \<Rightarrow> app_state" where
  "app_step st (Change f v) = (if change_event st (f, v) then handleInputChange st f v else st)"
| "app_step st (OptionsSettled outcome) = loadOptions st outcome"
| "app_step st (HealthSettled outcome) = checkSystemHealth st outcome"
| "app_step st SubmitForm = fst (submit_form st)"
| "app_step st (RequestRejected err) = handleSubmit_rejected st err"

definition run_events :: "app_state \<Rightarrow> app_event list \<Rightarrow> app_state" where
  "run_events st evs = foldl app_step st evs"

text \<open>
  The fields the payload is specified to have, and the reading of the specification's
  rule for a submission: every required field is present and is not empty once trimmed.
\<close>

definition payload_fields :: "string list" where
  "payload_fields =
     [''skills'', ''education_level'', ''sector_interest'', ''location_preference'',
      ''experience'', ''aspirations'']"

definition required_present :: "form_data \<Rightarrow> bool" where
  "required_present fd =
     list_all (\<lambda>f. case map_of fd f of None \<Rightarrow> False | Some v \<Rightarrow> trim v \<noteq> []) requiredFields"

text \<open>A health response that reports the engine initialized is among the events.\<close>

definition reported_initialized :: "app_event list \<Rightarrow> bool" where
  "reported_initialized evs =
     list_ex (\<lambda>ev. case ev of
                     HealthSettled (Resolved d) \<Rightarrow> engine_initialized (Some d)
                   | _ \<Rightarrow> False) evs"

section \<open>The recommendations page\<close>

text \<open>
  The body of a response of \<^verbatim>\<open>POST /recommendations\<close>, flattened: \<open>success\<close>, the three
  parts of \<open>data\<close> and \<open>error\<close>.
\<close>

record analytics =
  total_recommendations :: nat
  avg_confidence :: int
  top_match_score :: int

record api_response =
  success :: bool
  resp_recommendations :: "recommendation list"
  resp_browse_table :: "internship list option"
  resp_analytics :: "analytics option"
  resp_error :: "string option"

text \<open>The navigation state the form passes to the page (\<^verbatim>\<open>location.state\<close>).\<close>

record nav_state =
  nav_formData :: "form_data option"
  nav_recommendations :: "recommendation list option"
  nav_browseTable :: "internship list option"
  nav_analytics :: "analytics option"

text \<open>
  \<open>handleSubmit\<close> after a resolved request. A response that reports success navigates
  to the page with the recommendations, the browse table and the analytics. Any other
  response throws an error with the response's message inside the \<open>try\<close> block, which
  the \<open>catch\<close> block handles like a failed request. \<open>finally\<close> ends the loading.
\<close>

definition handleSubmit_resolved :: "app_state \<Rightarrow> api_response \<Rightarrow> app_state \<times> nav_state option" where
  "handleSubmit_resolved st res =
     (if success res
      then (st\<lparr>loading := False\<rparr>,
            Some \<lparr>nav_formData = Some (formData st),
                  nav_recommendations = Some (resp_recommendations res),
                  nav_browseTable = resp_browse_table res,
                  nav_analytics = resp_analytics res\<rparr>)
      else (handleSubmit_rejected st
              \<lparr>code = None, response = None,
               message = (case resp_error res of
                            None \<Rightarrow> ''Failed to get recommendations''
                          | Some e \<Rightarrow> if e = [] then ''Failed to get recommendations'' else e)\<rparr>,
            None))"

text \<open>The state of the page (second version of the component, with tabs and filters).\<close>

record page_state =
  recommendations :: "recommendation list"
  browseTable :: "internship list"
  page_error :: string
  page_loading :: bool
  activeTab :: string
  filterSector :: jsstring
  filterLocation :: jsstring
  searchTerm :: jsstring

text \<open>
  The initial state. \<^verbatim>\<open>preloaded = state.recommendations || null\<close>: an array is truthy,
  the empty one too, so a preloaded empty list stays a preloaded list;
  \<^verbatim>\<open>useState(!preloaded)\<close> starts loading only when nothing was preloaded.
\<close>

definition initial_page :: "nav_state \<Rightarrow> page_state" where
  "initial_page nav =
     \<lparr>recommendations = (case nav_recommendations nav of None \<Rightarrow> [] | Some rs \<Rightarrow> rs),
      browseTable = (case nav_browseTable nav of None \<Rightarrow> [] | Some bt \<Rightarrow> bt),
      page_error = [], page_loading = (nav_recommendations nav = None),
      activeTab = ''recommendations'', filterSector = [], filterLocation = [], searchTerm = []\<rparr>"

text \<open>
  Whether the effect \<open>fetchData\<close> sends a request: \<^verbatim>\<open>if (!formData || preloaded) return\<close>.
\<close>

definition fetch_needed :: "nav_state \<Rightarrow> bool" where
  "fetch_needed nav \<longleftrightarrow> nav_formData nav \<noteq> None \<and> nav_recommendations nav = None"

text \<open>\<open>fetchData\<close> once its request has settled.\<close>

definition fetchData :: "page_state \<Rightarrow> (api_response, request_error) settled \<Rightarrow> page_state" where
  "fetchData st outcome =
     (case outcome of
        Resolved res \<Rightarrow>
          (if success res
           then st\<lparr>recommendations := resp_recommendations res,
                   browseTable := (case resp_browse_table res of None \<Rightarrow> [] | Some bt \<Rightarrow> bt),
                   page_loading := False\<rparr>
           else st\<lparr>page_error := (case resp_error res of
                                     None \<Rightarrow> ''Failed to get recommendations''
                                   | Some e \<Rightarrow> if e = [] then ''Failed to get recommendations'' else e),
                   page_loading := False\<rparr>)
      | Rejected err \<Rightarrow>
          st\<lparr>page_error := (case response err of
                               None \<Rightarrow> ''Network error''
                             | Some r \<Rightarrow> (case data_error r of
                                           None \<Rightarrow> ''Network error''
                                         | Some e \<Rightarrow> if e = [] then ''Network error'' else e)),
             page_loading := False\<rparr>)"

text \<open>
  What the page shows: the loading page, the error page, or the page with its two
  tabs. The tab of the top matches shows the block 'No recommendations found' for an
  empty list and the cards otherwise (a card is stood for by its badge); the other tab
  shows the first twelve entries of the filtered browse table, or 'No internships match
  your current filters.'. The filtered browse table is computed with \<open>toLowerCase\<close>,
  the first argument here.
\<close>

datatype page_view =
    LoadingPage
  | ErrorPage string
  | NoRecommendations
  | RecommendationCards "(string \<times> string) list"
  | BrowseNoResults
  | BrowseCards "internship list"

definition render :: "(jsstring \<Rightarrow> jsstring) \<Rightarrow> page_state \<Rightarrow> page_view" where
  "render lower st =
     (if page_loading st then LoadingPage
      else if page_error st \<noteq> [] then ErrorPage (page_error st)
      else if activeTab st = ''recommendations''
        then (if length (recommendations st) = 0 then NoRecommendations
              else RecommendationCards (map confidence_badge (recommendations st)))
      else (let shown = filteredBrowseTable lower (filterSector st) (filterLocation st) (searchTerm st)
                          (browseTable st)
            in if length shown = 0 then BrowseNoResults else BrowseCards (take 12 shown)))"

text \<open>
  The first version of the page has no tabs: after the same loading and error pages it
  shows the table of the recommendations, whose body is the row 'No recommendations
  found. Try broadening inputs.' for an empty list, followed by one row per
  recommendation (stood for by its posting's id).
\<close>

datatype table_row = MessageRow string | RecommendationRow nat

datatype table_view = TableLoading | TableError string | RecommendationTable "table_row list"

definition render_table :: "page_state \<Rightarrow> table_view" where
  "render_table st =
     (if page_loading st then TableLoading
      else if page_error st \<noteq> [] then TableError (page_error st)
      else RecommendationTable
             ((if length (recommendations st) = 0
               then [MessageRow ''No recommendations found. Try broadening inputs.'']
               else [])
              @ map (\<lambda>r. RecommendationRow (id' r)) (recommendations st)))"

section \<open>The matching engine\<close>

text \<open>
  The engine (text normalizer, vector space model, similarity scorer, skill gap
  analyzer, ranker, analytics aggregator) runs in the backend service, whose code is
  not among the sources; the sources hold the frontend that calls it. Every definition
  of this section is therefore written from the specification's sections 3 and 4, over
  the real numbers: it says nothing about the rounding of floating-point arithmetic.
\<close>

subsection \<open>Data\<close>

text \<open>
  Modelled from the spec: the CandidateProfile value object (section 3), built from the
  request payload's six strings; the backend's class is not among the sources.
\<close>

record candidate_profile =
  cp_skills :: string
  cp_education_level :: string
  cp_sector_interest :: string
  cp_location_preference :: string
  cp_experience :: string
  cp_aspirations :: string

text \<open>
  Modelled from the spec: an InternshipPosting of the catalog (section 3), with its
  required skills as an ordered sequence of strings in their display casing.
\<close>

record posting =
  posting_id :: nat
  posting_company :: string
  posting_role :: string
  posting_location :: string
  posting_industry :: string
  posting_required_skills :: "string list"

subsection \<open>TextNormalizer\<close>

text \<open>
  Modelled from the spec: lower-casing (section 4.1). The engine's texts are values of
  \<^typ>\<open>string\<close>; a token is made of letters and digits of ASCII, so the letters A to Z
  are what lower-casing changes in a token, and every other character is left as it is.
\<close>

definition lower_letter :: "char \<Rightarrow> char" where
  "lower_letter c =
     (case map_of (zip ''ABCDEFGHIJKLMNOPQRSTUVWXYZ'' ''abcdefghijklmnopqrstuvwxyz'') c of
        Some d \<Rightarrow> d
      | None \<Rightarrow> c)"

definition lowercase :: "string \<Rightarrow> string" where
  "lowercase s = map lower_letter s"

text \<open>
  Modelled from the spec: what is left of a field 'post-normalization' (section 3): the
  field without the blanks (space, tab, line feed, vertical tab, form feed, carriage
  return) at its two ends.
\<close>

definition is_blank :: "char \<Rightarrow> bool" where
  "is_blank c \<longleftrightarrow> c \<in> set [CHR '' '', CHR 0x09, CHR 0x0A, CHR 0x0B, CHR 0x0C, CHR 0x0D]"

definition strip :: "string \<Rightarrow> string" where
  "strip s = rev (dropWhile is_blank (rev (dropWhile is_blank s)))"

text \<open>
  Modelled from the spec: the characters a token is made of (section 4.1, 'lowercase
  alphanumeric tokens').
\<close>

definition is_alnum :: "char \<Rightarrow> bool" where
  "is_alnum c \<longleftrightarrow>
     c \<in> set ''abcdefghijklmnopqrstuvwxyzABCDEFGHIJKLMNOPQRSTUVWXYZ0123456789''"

text \<open>
  Modelled from the spec: splitting on non-alphanumeric boundaries and dropping empty
  tokens (section 4.1); the first argument is the token being read.
\<close>

fun split_tokens :: "string \<Rightarrow> string \<Rightarrow> string list" where
  "split_tokens cur [] = (if cur = [] then [] else [cur])"
| "split_tokens cur (c # cs) =
     (if is_alnum c then split_tokens (cur @ [c]) cs
      else (if cur = [] then [] else [cur]) @ split_tokens [] cs)"

text \<open>
  Modelled from the spec: the tokens of a text in their order, lower-cased (section
  4.1); the vector space model counts them.
\<close>

definition tokens :: "string \<Rightarrow> string list" where
  "tokens txt = split_tokens [] (lowercase txt)"

text \<open>Modelled from the spec: \<open>normalize(text)\<close>, the set of the tokens (section 4.1).\<close>

definition normalize :: "string \<Rightarrow> string set" where
  "normalize txt = set (tokens txt)"

text \<open>
  Modelled from the spec: \<open>buildQueryDocument(profile)\<close>, the skills, the aspirations
  and the sector interest in one text (section 4.1).
\<close>

definition buildQueryDocument :: "candidate_profile \<Rightarrow> string" where
  "buildQueryDocument p = cp_skills p @ '' '' @ cp_aspirations p @ '' '' @ cp_sector_interest p"

text \<open>
  Modelled from the spec: a posting's \<open>description_text\<close>, its role, industry and
  skills concatenated (section 3).
\<close>

definition description_text :: "posting \<Rightarrow> string" where
  "description_text q =
     posting_role q @ '' '' @ posting_industry q @ '' ''
       @ concat (map (\<lambda>s. s @ '' '') (posting_required_skills q))"

subsection \<open>VectorSpaceModel\<close>

text \<open>
  Modelled from the spec: the state of the vector space model (section 3): the
  vocabulary, one idf weight per term of it, one vector per posting.
\<close>

record vector_space_model =
  vocabulary :: "string list"
  idf_weights :: "real list"
  posting_vectors :: "real list list"

text \<open>
  Modelled from the spec: the document frequency of a term, the number of documents
  that contain it (section 4.2).
\<close>

definition document_frequency :: "string \<Rightarrow> string list list \<Rightarrow> nat" where
  "document_frequency t docs = length (filter (\<lambda>d. t \<in> set d) docs)"

text \<open>
  Modelled from the spec: the smoothed idf, \<open>log((1 + N) / (1 + df)) + 1\<close> (section
  4.2), with the natural logarithm.
\<close>

definition idf :: "nat \<Rightarrow> nat \<Rightarrow> real" where
  "idf n df = ln ((1 + real n) / (1 + real df)) + 1"

text \<open>
  Modelled from the spec: the raw vector of a document, term frequency times idf per
  term of the vocabulary; a term outside the vocabulary has no dimension (section 4.2).
\<close>

definition tfidf :: "string list \<Rightarrow> real list \<Rightarrow> string list \<Rightarrow> real list" where
  "tfidf vocab idfs doc = map2 (\<lambda>t w. real (count_list doc t) * w) vocab idfs"

text \<open>Modelled from the spec: the L2 norm of a vector (section 4.2).\<close>

definition l2_norm :: "real list \<Rightarrow> real" where
  "l2_norm v = sqrt (sum_list (map (\<lambda>x. x * x) v))"

text \<open>
  Modelled from the spec: L2 normalization (section 4.2); a vector of norm 0 is left as
  it is, so that nothing is divided by zero.
\<close>

definition l2_normalize :: "real list \<Rightarrow> real list" where
  "l2_normalize v = (let n = l2_norm v in if n = 0 then v else map (\<lambda>x. x / n) v)"

text \<open>
  Modelled from the spec: \<open>fit(corpus)\<close> (section 4.2): the vocabulary is the distinct
  terms of the corpus, each with its idf, and every document's vector is computed once.
\<close>

definition fit :: "string list \<Rightarrow> vector_space_model" where
  "fit corpus =
     (let docs = map tokens corpus;
          vocab = remdups (concat docs);
          idfs = map (\<lambda>t. idf (length docs) (document_frequency t docs)) vocab
      in \<lparr>vocabulary = vocab, idf_weights = idfs,
          posting_vectors = map (\<lambda>d. l2_normalize (tfidf vocab idfs d)) docs\<rparr>)"

text \<open>
  Modelled from the spec: \<open>transform(document)\<close> (section 4.2), with the model's frozen
  vocabulary and idf weights.
\<close>

definition transform :: "vector_space_model \<Rightarrow> string \<Rightarrow> real list" where
  "transform m document = l2_normalize (tfidf (vocabulary m) (idf_weights m) (tokens document))"

subsection \<open>SimilarityScorer\<close>

text \<open>Modelled from the spec: the dot product of two vectors (section 4.3).\<close>

definition dot :: "real list \<Rightarrow> real list \<Rightarrow> real" where
  "dot u v = sum_list (map2 (\<lambda>a b. a * b) u v)"

text \<open>
  Modelled from the spec: cosine similarity, the dot product of the L2-normalized
  vectors, defined as 0 when either vector is all-zero (section 4.3).
\<close>

definition cosine_similarity :: "real list \<Rightarrow> real list \<Rightarrow> real" where
  "cosine_similarity u v =
     (if list_all (\<lambda>x. x = 0) u \<or> list_all (\<lambda>x. x = 0) v then 0 else dot u v)"

text \<open>
  Modelled from the spec: what section 4.3 leaves configurable: the four weights, the
  partial credit of a location contained in the posting's location, the neutral
  education score with the table of the levels that have a score of their own, and the
  length of the result list (section 4.5).
\<close>

record scoring_config =
  weight_skills :: real
  weight_industry :: real
  weight_location :: real
  weight_education :: real
  location_partial_credit :: real
  education_neutral :: real
  education_table :: "(string \<times> real) list"
  top_n :: nat

text \<open>
  Modelled from the spec: the default configuration (sections 4.3 and 4.5): weights
  0.5, 0.2, 0.2, 0.1, partial credit 0.5, five results. The neutral education score is
  not given by the specification; 0.5 is this model's choice.
\<close>

definition default_config :: scoring_config where
  "default_config =
     \<lparr>weight_skills = 0.5, weight_industry = 0.2, weight_location = 0.2,
      weight_education = 0.1, location_partial_credit = 0.5, education_neutral = 0.5,
      education_table = [], top_n = 5\<rparr>"

text \<open>Modelled from the spec: the \<open>score_breakdown\<close> of a result (section 3).\<close>

record score_breakdown =
  skills_match :: real
  industry_match :: real
  location_match :: real
  education_compatibility :: real

text \<open>
  Modelled from the spec: \<open>industry_match\<close> (section 4.3): 1 when the token sets of the
  sector interest and of the industry intersect; without a common token the overlap,
  and with it the score, is 0.
\<close>

definition industry_score :: "candidate_profile \<Rightarrow> posting \<Rightarrow> real" where
  "industry_score p q =
     (if list_ex (\<lambda>t. t \<in> set (tokens (posting_industry q))) (tokens (cp_sector_interest p))
      then 1 else 0)"

text \<open>
  Modelled from the spec: \<open>location_match\<close> (section 4.3): 1 on a case-insensitive
  exact match, the partial credit when the preference is contained in the posting's
  location, else 0.
\<close>

definition location_score :: "scoring_config \<Rightarrow> candidate_profile \<Rightarrow> posting \<Rightarrow> real" where
  "location_score cfg p q =
     (let wanted = lowercase (cp_location_preference p);
          offered = lowercase (posting_location q)
      in if wanted = offered then 1
         else if sublist wanted offered then location_partial_credit cfg
         else 0)"

text \<open>
  Modelled from the spec: \<open>education_compatibility\<close> (section 4.3): postings carry no
  required education, so the score is looked up by the candidate's level alone, with
  the neutral score for a level the table does not list.
\<close>

definition education_score :: "scoring_config \<Rightarrow> candidate_profile \<Rightarrow> real" where
  "education_score cfg p =
     (case map_of (education_table cfg) (cp_education_level p) of
        None \<Rightarrow> education_neutral cfg
      | Some s \<Rightarrow> s)"

text \<open>Modelled from the spec: clamping to the interval [0,1] (section 4.3).\<close>

definition clamp01 :: "real \<Rightarrow> real" where
  "clamp01 x = max 0 (min 1 x)"

text \<open>
  Modelled from the spec: the weighted sum of the four components of a breakdown
  (section 4.3).
\<close>

definition weighted_sum :: "scoring_config \<Rightarrow> score_breakdown \<Rightarrow> real" where
  "weighted_sum cfg b =
     weight_skills cfg * skills_match b + weight_industry cfg * industry_match b
       + weight_location cfg * location_match b
       + weight_education cfg * education_compatibility b"

text \<open>
  Modelled from the spec: the composite raw score, the weighted sum clamped to [0,1]
  (section 4.3).
\<close>

definition composite :: "scoring_config \<Rightarrow> score_breakdown \<Rightarrow> real" where
  "composite cfg b = clamp01 (weighted_sum cfg b)"

subsection \<open>SkillGapAnalyzer\<close>

text \<open>Modelled from the spec: the \<open>skills_analysis\<close> of a result (section 3).\<close>

record skills_analysis =
  matching_skills :: "string list"
  missing_skills :: "string list"
  match_percentage :: real

text \<open>
  Modelled from the spec: the token a required skill is compared by, its lower-cased
  form (sections 3 and 4.4).
\<close>

definition skill_token :: "string \<Rightarrow> string" where
  "skill_token s = lowercase s"

text \<open>
  Modelled from the spec: \<open>analyze(candidateSkills, requiredSkills)\<close> (section 4.4):
  the required skills whose token the candidate has, those whose token the candidate
  lacks, both in the posting's order and display casing, and the share of the former.
\<close>

definition analyze :: "string set \<Rightarrow> string list \<Rightarrow> skills_analysis" where
  "analyze candidateSkills requiredSkills =
     (let matching = filter (\<lambda>s. skill_token s \<in> candidateSkills) requiredSkills;
          missing = filter (\<lambda>s. skill_token s \<notin> candidateSkills) requiredSkills
      in \<lparr>matching_skills = matching, missing_skills = missing,
          match_percentage =
            (if requiredSkills = [] then 0
             else real (length matching) / real (length requiredSkills))\<rparr>)"

subsection \<open>RecommendationRanker\<close>

text \<open>
  Modelled from the spec: a RecommendationResult (section 3), without its generated
  \<open>match_reasoning\<close> text, which no property below reads.
\<close>

record recommendation_result =
  result_posting_id :: nat
  result_similarity :: real
  result_confidence_score :: int
  result_skills_analysis :: skills_analysis
  result_score_breakdown :: score_breakdown

text \<open>
  Modelled from the spec: \<open>score(queryVector, profile, posting)\<close> with the posting's
  vector, and the assembly of the posting's result (sections 4.3 and 4.5). The skills
  component of the breakdown is the overall similarity (the model keeps one combined
  vector); the confidence score is the composite score times 100, rounded.
\<close>

definition score :: "scoring_config \<Rightarrow> real list \<Rightarrow> candidate_profile \<Rightarrow> posting \<times> real list
     \<Rightarrow> recommendation_result" where
  "score cfg queryVector p qv =
     (let q = fst qv;
          similarity = cosine_similarity queryVector (snd qv);
          breakdown = \<lparr>skills_match = similarity, industry_match = industry_score p q,
                       location_match = location_score cfg p q,
                       education_compatibility = education_score cfg p\<rparr>
      in \<lparr>result_posting_id = posting_id q, result_similarity = similarity,
          result_confidence_score = round (composite cfg breakdown * 100),
          result_skills_analysis = analyze (normalize (cp_skills p)) (posting_required_skills q),
          result_score_breakdown = breakdown\<rparr>)"

text \<open>
  Modelled from the spec: the sort key of the ranker (section 4.5): confidence score
  descending, then posting id ascending.
\<close>

definition rank_key :: "recommendation_result \<Rightarrow> int \<times> nat" where
  "rank_key r = (- result_confidence_score r, result_posting_id r)"

text \<open>Modelled from the spec: sorting the results by the key (section 4.5).\<close>

definition rank :: "recommendation_result list \<Rightarrow> recommendation_result list" where
  "rank rs = sort_key rank_key rs"

text \<open>Modelled from the spec: truncating the sorted results to the top N (section 4.5).\<close>

definition top_ranked :: "nat \<Rightarrow> recommendation_result list \<Rightarrow> recommendation_result list" where
  "top_ranked n rs = take n (rank rs)"

text \<open>
  Modelled from the spec: the order the ranker promises between an earlier and a later
  result (section 4.5).
\<close>

definition ranked_before :: "recommendation_result \<Rightarrow> recommendation_result \<Rightarrow> bool" where
  "ranked_before a b \<longleftrightarrow>
     result_confidence_score b < result_confidence_score a
     \<or> (result_confidence_score a = result_confidence_score b
         \<and> result_posting_id a \<le> result_posting_id b)"

text \<open>
  Modelled from the spec: the ranges of a result (sections 3, 4.3 and 8): the similarity
  lies in [0,1], and the confidence score is the composite score of the result's
  breakdown times 100, rounded, an integer from 0 to 100.
\<close>

definition well_scored :: "scoring_config \<Rightarrow> recommendation_result \<Rightarrow> bool" where
  "well_scored cfg r \<longleftrightarrow>
     0 \<le> result_similarity r \<and> result_similarity r \<le> 1
     \<and> result_confidence_score r = round (composite cfg (result_score_breakdown r) * 100)
     \<and> 0 \<le> result_confidence_score r \<and> result_confidence_score r \<le> 100"

subsection \<open>The recommendation operation\<close>

text \<open>
  Modelled from the spec: the engine's state, the catalog with its fitted model
  (sections 3 and 6).
\<close>

record engine =
  catalog :: "posting list"
  model :: vector_space_model

text \<open>
  Modelled from the spec: loading a catalog, which fits the model once over the
  postings' description texts (sections 3 and 4.2).
\<close>

definition load_catalog :: "posting list \<Rightarrow> engine" where
  "load_catalog ps = \<lparr>catalog = ps, model = fit (map description_text ps)\<rparr>"

text \<open>Modelled from the spec: the two errors of the operation (section 7).\<close>

datatype engine_error = ValidationError | EngineNotInitializedError

text \<open>
  Modelled from the spec: the invariant of a profile (section 3): the skills normalize
  to at least one token and the other required fields are not empty once stripped.
\<close>

definition valid_profile :: "candidate_profile \<Rightarrow> bool" where
  "valid_profile p \<longleftrightarrow>
     tokens (cp_skills p) \<noteq> [] \<and> strip (cp_education_level p) \<noteq> []
     \<and> strip (cp_sector_interest p) \<noteq> [] \<and> strip (cp_location_preference p) \<noteq> []"

text \<open>
  Modelled from the spec: the results of all postings of the catalog, each scored with
  its precomputed vector (section 2, data flow).
\<close>

definition score_all :: "scoring_config \<Rightarrow> engine \<Rightarrow> candidate_profile \<Rightarrow> recommendation_result list" where
  "score_all cfg e p =
     map (score cfg (transform (model e) (buildQueryDocument p)) p)
         (zip (catalog e) (posting_vectors (model e)))"

text \<open>
  Modelled from the spec: the recommendation operation (sections 2, 4.5 and 7): an
  engine that is not there yet and an invalid profile are errors; otherwise the top N
  of the ranked results.
\<close>

definition recommend ::
  "scoring_config \<Rightarrow> engine option \<Rightarrow> candidate_profile
     \<Rightarrow> engine_error + recommendation_result list" where
  "recommend cfg eng p =
     (case eng of
        None \<Rightarrow> Inl EngineNotInitializedError
      | Some e \<Rightarrow>
          if \<not> valid_profile p then Inl ValidationError
          else Inr (top_ranked (top_n cfg) (score_all cfg e p)))"

subsection \<open>AnalyticsAggregator\<close>

text \<open>
  Modelled from the spec: the analytics of a result list (section 4.6): the count, the
  mean confidence score rounded to the nearest integer (0 for the empty list) and the
  confidence score of the first result (0 for the empty list).
\<close>

definition aggregate :: "recommendation_result list \<Rightarrow> analytics" where
  "aggregate rs =
     \<lparr>total_recommendations = length rs,
      avg_confidence =
        (if rs = [] then 0
         else round (real_of_int (sum_list (map result_confidence_score rs)) / real (length rs))),
      top_match_score = (case rs of [] \<Rightarrow> 0 | r # rest \<Rightarrow> result_confidence_score r)\<rparr>"

section \<open>Example inputs\<close>

text \<open>Concrete inputs at which the theorems below are evaluated.\<close>

definition example_table :: "internship list" where
  "example_table =
     [\<lparr>id' = 1, company = Some (str ''Acme Analytics''), role = Some (str ''Data Analyst Intern''),
       location = Some (str ''Pune''), industry = Some (str ''FinTech''),
       required_skills = Some (str ''Python, SQL'')\<rparr>,
      \<lparr>id' = 2, company = Some (str ''Bright Labs''), role = None,
       location = Some (str ''Pune''), industry = None,
       required_skills = Some (str ''Python, Excel'')\<rparr>,
      \<lparr>id' = 3, company = Some (str ''Civic Media''), role = Some (str ''Marketing Intern''),
       location = Some (str ''Delhi''), industry = Some (str ''FinTech''),
       required_skills = Some (str ''Communication'')\<rparr>]"

text \<open>
  A lower-casing for the examples: the letters A to Z and the letters of Latin-1 from
  U+00C0 to U+00DE (the multiplication sign U+00D7 apart) are moved by 32, as
  \<open>toLowerCase\<close> does with them; every other code unit is left as it is.
\<close>

definition example_lower_unit :: "code_unit \<Rightarrow> code_unit" where
  "example_lower_unit c =
     (if (0x41 \<le> c \<and> c \<le> 0x5A) \<or> (0xC0 \<le> c \<and> c \<le> 0xDE \<and> c \<noteq> 0xD7) then c + 0x20 else c)"

definition example_lower :: "jsstring \<Rightarrow> jsstring" where
  "example_lower s = map example_lower_unit s"

text \<open>A posting whose role ends in the capital letter U+00C9 (E with acute accent).\<close>

definition example_cafe :: internship where
  "example_cafe =
     \<lparr>id' = 4, company = Some (str ''Le Bistro''), role = Some (str ''CAF'' @ [0x00C9]),
      location = Some (str ''Pune''), industry = Some (str ''Hospitality''),
      required_skills = Some (str ''Service'')\<rparr>"

definition example_options :: dropdown_options where
  "example_options =
     \<lparr>education_levels = [str ''Graduate'', str ''Postgraduate''],
      sectors = [str ''Technology'', str ''Finance''],
      locations = [str ''Pune'', str ''Delhi''],
      skills = [str ''Python'', str ''C'', str ''Excel'']\<rparr>"

definition example_health_ready :: health where
  "example_health_ready =
     \<lparr>health_status = Some ''healthy'',
      engine_status = Some \<lparr>initialized = Some True, total_internships = Some 3\<rparr>\<rparr>"

definition example_health_initializing :: health where
  "example_health_initializing =
     \<lparr>health_status = Some ''degraded'',
      engine_status = Some \<lparr>initialized = Some False, total_internships = None\<rparr>\<rparr>"

definition example_events :: "app_event list" where
  "example_events =
     [OptionsSettled (Resolved example_options), HealthSettled (Resolved example_health_ready),
      Change ''skills'' (str ''Python''), Change ''education_level'' (str ''Graduate''),
      Change ''sector_interest'' (str ''Technology''), Change ''location_preference'' (str ''Pune''),
      Change ''aspirations'' (str ''Data Analyst'')]"

definition example_error_503 :: request_error where
  "example_error_503 =
     \<lparr>code = Some ''ERR_BAD_RESPONSE'',
      response = Some \<lparr>http_status = Some 503, data_error = Some ''Recommendation engine not initialized''\<rparr>,
      message = ''Request failed with status code 503''\<rparr>"

text \<open>
  A form whose only skill is the one-letter skill 'C', with every required field filled
  in, and events of the form that lead to it.
\<close>

definition example_events_C :: "app_event list" where
  "example_events_C =
     [OptionsSettled (Resolved example_options), HealthSettled (Resolved example_health_ready),
      Change ''skills'' (str ''C''), Change ''education_level'' (str ''Graduate''),
      Change ''sector_interest'' (str ''Technology''), Change ''location_preference'' (str ''Pune'')]"

definition example_form_C :: form_data where
  "example_form_C =
     [(''skills'', str ''C''), (''education_level'', str ''Graduate''),
      (''sector_interest'', str ''Technology''), (''location_preference'', str ''Pune''),
      (''experience'', []), (''aspirations'', [])]"

text \<open>A form whose education level is a single no-break space (U+00A0).\<close>

definition example_form_nbsp :: form_data where
  "example_form_nbsp =
     [(''skills'', str ''Python''), (''education_level'', [0x00A0]),
      (''sector_interest'', str ''Technology''), (''location_preference'', str ''Pune''),
      (''experience'', []), (''aspirations'', [])]"

definition example_form_python :: form_data where
  "example_form_python =
     [(''skills'', str ''Python''), (''education_level'', str ''Graduate''),
      (''sector_interest'', str ''Technology''), (''location_preference'', str ''Pune''),
      (''experience'', []), (''aspirations'', [])]"

definition example_profile :: candidate_profile where
  "example_profile =
     \<lparr>cp_skills = ''Python, SQL'', cp_education_level = ''Graduate'',
      cp_sector_interest = ''Technology'', cp_location_preference = ''Pune'',
      cp_experience = [], cp_aspirations = ''Data Analyst''\<rparr>"

text \<open>Three scored results, two of them with the same confidence score.\<close>

definition example_result :: "nat \<Rightarrow> int \<Rightarrow> recommendation_result" where
  "example_result i c =
     \<lparr>result_posting_id = i, result_similarity = 0, result_confidence_score = c,
      result_skills_analysis = \<lparr>matching_skills = [], missing_skills = [], match_percentage = 0\<rparr>,
      result_score_breakdown = \<lparr>skills_match = 0, industry_match = 0, location_match = 0,
                                education_compatibility = 0\<rparr>\<rparr>"

definition example_results :: "recommendation_result list" where
  "example_results = [example_result 2 80, example_result 3 90, example_result 1 80]"

text \<open>A successful response for an empty catalog, and the navigation state it leads to.\<close>

definition example_empty_response :: api_response where
  "example_empty_response =
     \<lparr>success = True, resp_recommendations = [], resp_browse_table = Some [],
      resp_analytics = Some \<lparr>total_recommendations = 0, avg_confidence = 0, top_match_score = 0\<rparr>,
      resp_error = None\<rparr>"

definition example_empty_nav :: nav_state where
  "example_empty_nav =
     \<lparr>nav_formData = Some example_form_python, nav_recommendations = Some [],
      nav_browseTable = Some [],
      nav_analytics = Some \<lparr>total_recommendations = 0, avg_confidence = 0, top_match_score = 0\<rparr>\<rparr>"

definition example_fetch_nav :: nav_state where
  "example_fetch_nav =
     \<lparr>nav_formData = Some example_form_python, nav_recommendations = None,
      nav_browseTable = None, nav_analytics = None\<rparr>"

text \<open>A catalog of one posting, in the sector and the city of the example profile.\<close>

definition example_posting :: posting where
  "example_posting =
     \<lparr>posting_id = 7, posting_company = ''Acme Analytics'', posting_role = ''Python'',
      posting_location = ''Pune'', posting_industry = ''Technology'',
      posting_required_skills = []\<rparr>"
section \<open>Properties of the confidence badge\<close>

lemma js_ge_iff: "js_ge conf n \<longleftrightarrow> (\<exists>c. conf = Some c \<and> n \<le> c)"
  by (cases conf) simp_all

text \<open>
  Claim C9. The label and the colour of a recommendation's badge depend on its
  \<open>confidence_score\<close> only. The badge is (success colour, 'Excellent Match') exactly
  when the score is at least 80, (warning colour, 'Good Match') exactly when the score is
  at least 60 and below 80, and (error colour, 'Potential Match') in every other case,
  an absent score included.
\<close>

theorem confidence_badge_thresholds:
  "confidence_badge rec =
     (if \<exists>c. confidence_score rec = Some c \<and> 80 \<le> c
        then (''var(--success-500)'', ''Excellent Match'')
      else if \<exists>c. confidence_score rec = Some c \<and> 60 \<le> c \<and> c < 80
        then (''var(--warning-500)'', ''Good Match'')
      else (''var(--error-500)'', ''Potential Match''))
   \<and> (getConfidenceLabel conf = ''Excellent Match'' \<longleftrightarrow> (\<exists>c. conf = Some c \<and> 80 \<le> c))
   \<and> (getConfidenceLabel conf = ''Good Match'' \<longleftrightarrow> (\<exists>c. conf = Some c \<and> 60 \<le> c \<and> c < 80))
   \<and> (getConfidenceColor conf = ''var(--success-500)'' \<longleftrightarrow> (\<exists>c. conf = Some c \<and> 80 \<le> c))
   \<and> (getConfidenceColor conf = ''var(--warning-500)'' \<longleftrightarrow> (\<exists>c. conf = Some c \<and> 60 \<le> c \<and> c < 80))"
proof -
  have badge: "confidence_badge rec =
     (if \<exists>c. confidence_score rec = Some c \<and> 80 \<le> c
        then (''var(--success-500)'', ''Excellent Match'')
      else if \<exists>c. confidence_score rec = Some c \<and> 60 \<le> c \<and> c < 80
        then (''var(--warning-500)'', ''Good Match'')
      else (''var(--error-500)'', ''Potential Match''))"
    by (cases "confidence_score rec")
       (auto simp: confidence_badge_def getConfidenceColor_def getConfidenceLabel_def)
  have label: "getConfidenceLabel conf = ''Excellent Match'' \<longleftrightarrow> (\<exists>c. conf = Some c \<and> 80 \<le> c)"
    "getConfidenceLabel conf = ''Good Match'' \<longleftrightarrow> (\<exists>c. conf = Some c \<and> 60 \<le> c \<and> c < 80)"
    by (cases conf; auto simp: getConfidenceLabel_def)+
  have colour: "getConfidenceColor conf = ''var(--success-500)'' \<longleftrightarrow> (\<exists>c. conf = Some c \<and> 80 \<le> c)"
    "getConfidenceColor conf = ''var(--warning-500)'' \<longleftrightarrow> (\<exists>c. conf = Some c \<and> 60 \<le> c \<and> c < 80)"
    by (cases conf; auto simp: getConfidenceColor_def)+
  from badge label colour show ?thesis by blast
qed


section \<open>Properties of the browse filter\<close>

lemma startsWith_iff: "startsWith hay n \<longleftrightarrow> (\<exists>after. hay = n @ after)"
  by (induction hay n rule: startsWith.induct) auto

lemma js_includes_iff: "js_includes hay n \<longleftrightarrow> (\<exists>before after. hay = before @ n @ after)"
proof (induction hay)
  case Nil
  then show ?case by auto
next
  case (Cons h hs)
  show ?case
  proof
    assume "js_includes (h # hs) n"
    then consider "startsWith (h # hs) n" | "js_includes hs n" by auto
    then show "\<exists>before after. h # hs = before @ n @ after"
    proof cases
      case 1
      then obtain after where "h # hs = n @ after" using startsWith_iff by blast
      then have "h # hs = [] @ n @ after" by simp
      then show ?thesis by blast
    next
      case 2
      then obtain before after where "hs = before @ n @ after" using Cons.IH by blast
      then have "h # hs = (h # before) @ n @ after" by simp
      then show ?thesis by blast
    qed
  next
    assume "\<exists>before after. h # hs = before @ n @ after"
    then obtain before after where eq: "h # hs = before @ n @ after" by blast
    show "js_includes (h # hs) n"
    proof (cases before)
      case Nil
      with eq have "startsWith (h # hs) n" using startsWith_iff by auto
      then show ?thesis by simp
    next
      case (Cons b bs)
      with eq have "hs = bs @ n @ after" by simp
      then have "js_includes hs n" using Cons.IH by blast
      then show ?thesis by simp
    qed
  qed
qed

lemma field_includes_truthy: "truthy (field_includes lower f t) \<longleftrightarrow> contains_ci lower f t"
  by (cases f) (simp_all add: field_includes_def contains_ci_def js_includes_iff)

lemma truthy_js_or: "truthy (js_or a b) \<longleftrightarrow> truthy a \<or> truthy b"
  by (simp add: js_or_def)

lemma truthy_js_and: "truthy (js_and a b) \<longleftrightarrow> truthy a \<and> truthy b"
  by (simp add: js_and_def)

lemma filter_test_visible:
  "truthy (js_and (js_and (matchesSector lower fs e) (matchesLocation lower fl e))
                  (matchesSearch lower st e))
     \<longleftrightarrow> entry_visible lower fs fl st e"
  by (simp add: truthy_js_and truthy_js_or js_not_str_def matchesSector_def matchesLocation_def
        matchesSearch_def entry_visible_def field_includes_truthy)

lemma filteredBrowseTable_filter:
  "filteredBrowseTable lower fs fl st bt = filter (entry_visible lower fs fl st) bt"
  by (simp add: filteredBrowseTable_def filter_test_visible)

text \<open>
  Claim C10. Whatever function \<open>toLowerCase\<close> is, the filtered browse list is the
  browse table with exactly the entries removed that are not visible under the three
  filters, in the table's order (\<open>entry_visible\<close>: each non-empty filter, lower-cased
  by \<open>toLowerCase\<close>, occurs as a substring of the field lower-cased by
  \<open>toLowerCase\<close>; the sector filter is matched against the industry, the location
  filter against the location, the search term against the role, the company or the
  required skills). So an entry is listed if and only if it is in the table and
  visible; with three empty filters the list is the table; an entry whose industry (or
  location) is absent is not listed under a non-empty sector (or location) filter, and
  one without role, company and required skills is not listed under a non-empty search
  term. Filters that \<open>toLowerCase\<close> maps to the same strings (and that are empty
  together) give the same list.
\<close>

theorem filteredBrowseTable_spec:
  "filteredBrowseTable lower fs fl st bt = filter (entry_visible lower fs fl st) bt
   \<and> (e \<in> set (filteredBrowseTable lower fs fl st bt)
        \<longleftrightarrow> e \<in> set bt \<and> entry_visible lower fs fl st e)
   \<and> subseq (filteredBrowseTable lower fs fl st bt) bt
   \<and> filteredBrowseTable lower [] [] [] bt = bt
   \<and> (fs \<noteq> [] \<and> industry e = None \<longrightarrow> e \<notin> set (filteredBrowseTable lower fs fl st bt))
   \<and> (fl \<noteq> [] \<and> location e = None \<longrightarrow> e \<notin> set (filteredBrowseTable lower fs fl st bt))
   \<and> (st \<noteq> [] \<and> role e = None \<and> company e = None \<and> required_skills e = None
        \<longrightarrow> e \<notin> set (filteredBrowseTable lower fs fl st bt))
   \<and> ((fs = [] \<longleftrightarrow> fs' = []) \<and> lower fs = lower fs'
        \<and> (fl = [] \<longleftrightarrow> fl' = []) \<and> lower fl = lower fl'
        \<and> (st = [] \<longleftrightarrow> st' = []) \<and> lower st = lower st'
        \<longrightarrow> filteredBrowseTable lower fs fl st bt = filteredBrowseTable lower fs' fl' st' bt)"
proof -
  have same: "filteredBrowseTable lower fs fl st bt = filteredBrowseTable lower fs' fl' st' bt"
    if "fs = [] \<longleftrightarrow> fs' = []" "lower fs = lower fs'" "fl = [] \<longleftrightarrow> fl' = []"
      "lower fl = lower fl'" "st = [] \<longleftrightarrow> st' = []" "lower st = lower st'"
  proof -
    have "filter (entry_visible lower fs fl st) bt = filter (entry_visible lower fs' fl' st') bt"
      by (rule filter_cong [OF refl])
         (unfold entry_visible_def contains_ci_def that, rule refl)
    then show ?thesis by (simp add: filteredBrowseTable_filter)
  qed
  have empty: "entry_visible lower [] [] [] x" for x :: "'a internship_scheme"
    by (simp add: entry_visible_def)
  have sector: "\<not> entry_visible lower fs fl st e" if "fs \<noteq> []" "industry e = None"
    using that by (simp add: entry_visible_def contains_ci_def)
  have loc: "\<not> entry_visible lower fs fl st e" if "fl \<noteq> []" "location e = None"
    using that by (simp add: entry_visible_def contains_ci_def)
  have search: "\<not> entry_visible lower fs fl st e"
    if "st \<noteq> []" "role e = None" "company e = None" "required_skills e = None"
    using that by (simp add: entry_visible_def contains_ci_def)
  show ?thesis
    unfolding filteredBrowseTable_filter
    using empty sector loc search same [unfolded filteredBrowseTable_filter] by auto
qed

theorem filteredBrowseTable_spec_witness:
  "filteredBrowseTable example_lower (str ''tech'') [] (str ''PY'') example_table
     = [hd example_table]
   \<and> str ''tech'' \<noteq> [] \<and> industry (example_table ! 1) = None
   \<and> example_table ! 1
       \<notin> set (filteredBrowseTable example_lower (str ''tech'') [] (str ''PY'') example_table)
   \<and> filteredBrowseTable example_lower (str ''tech'') (str ''pune'') [] example_table
       = [hd example_table]
   \<and> filteredBrowseTable example_lower [] [] [0x00E9] [example_cafe] = [example_cafe]
   \<and> filteredBrowseTable example_lower [] [] [] example_table = example_table
   \<and> example_lower (str ''tech'') = example_lower (str ''TECH'')
   \<and> example_lower (str ''PY'') = example_lower (str ''py'')
   \<and> filteredBrowseTable example_lower (str ''TECH'') [] (str ''py'') example_table
       = [hd example_table]"
proof -
  have run: "filteredBrowseTable example_lower (str ''tech'') [] (str ''PY'') example_table
               = [hd example_table]
      \<and> filteredBrowseTable example_lower (str ''tech'') (str ''pune'') [] example_table
          = [hd example_table]
      \<and> filteredBrowseTable example_lower [] [] [0x00E9] [example_cafe] = [example_cafe]"
    by code_simp
  have hyp: "str ''tech'' \<noteq> [] \<and> industry (example_table ! 1) = None"
    by code_simp
  have cased: "((str ''tech'' = []) = (str ''TECH'' = []))
      \<and> example_lower (str ''tech'') = example_lower (str ''TECH'')
      \<and> (([] :: jsstring) = []) = (([] :: jsstring) = [])
      \<and> example_lower [] = example_lower []
      \<and> ((str ''PY'' = []) = (str ''py'' = []))
      \<and> example_lower (str ''PY'') = example_lower (str ''py'')"
    by code_simp
  from cased filteredBrowseTable_spec
         [of example_lower "str ''tech''" "[]" "str ''PY''" example_table "example_table ! 1"
             "str ''TECH''" "[]" "str ''py''"]
  have other: "filteredBrowseTable example_lower (str ''tech'') [] (str ''PY'') example_table
      = filteredBrowseTable example_lower (str ''TECH'') [] (str ''py'') example_table"
    by blast
  from filteredBrowseTable_spec
         [of example_lower "str ''tech''" "[]" "str ''PY''" example_table "example_table ! 1"]
  have "str ''tech'' \<noteq> [] \<and> industry (example_table ! 1) = None \<longrightarrow>
          example_table ! 1
            \<notin> set (filteredBrowseTable example_lower (str ''tech'') [] (str ''PY'') example_table)"
    and "filteredBrowseTable example_lower [] [] [] example_table = example_table"
    by blast+
  with run hyp cased other show ?thesis by simp
qed

section \<open>Properties of the dropdowns\<close>

lemma set_foldl_set_add: "set (foldl set_add acc xs) = set acc \<union> set xs"
  by (induction xs arbitrary: acc) (auto simp: set_add_def)

lemma distinct_foldl_set_add: "distinct acc \<Longrightarrow> distinct (foldl set_add acc xs)"
  by (induction xs arbitrary: acc) (auto simp: set_add_def)

lemma set_new_Set: "set (new_Set xs) = set xs"
  by (simp add: new_Set_def set_foldl_set_add)

lemma distinct_new_Set: "distinct (new_Set xs)"
  by (simp add: new_Set_def distinct_foldl_set_add)

text \<open>
  Claim C7. The industries and the locations listed in the two dropdowns of the browse
  section are the values of the table without repetition: the list holds every industry
  (location) of the table and no value twice, and the options after the fixed first one
  ('All Industries', 'All Locations', of empty value) carry exactly these values. The
  whole dropdown, the fixed option included, has a value twice only when the empty
  string itself is an industry (a location) of the table.
\<close>

theorem browse_dropdowns_deduplicated:
  "distinct (new_Set (map industry bt)) \<and> set (new_Set (map industry bt)) = industry ` set bt
   \<and> distinct (new_Set (map location bt)) \<and> set (new_Set (map location bt)) = location ` set bt
   \<and> map option_value (industry_options bt) = Some [] # new_Set (map industry bt)
   \<and> map option_value (location_options bt) = Some [] # new_Set (map location bt)
   \<and> (distinct (map option_value (industry_options bt)) \<longleftrightarrow> Some [] \<notin> industry ` set bt)
   \<and> (distinct (map option_value (location_options bt)) \<longleftrightarrow> Some [] \<notin> location ` set bt)"
proof -
  have vi: "map option_value (industry_options bt) = Some [] # new_Set (map industry bt)"
    by (simp add: industry_options_def comp_def)
  have vl: "map option_value (location_options bt) = Some [] # new_Set (map location bt)"
    by (simp add: location_options_def comp_def)
  show ?thesis
    unfolding vi vl by (simp add: set_new_Set distinct_new_Set)
qed

theorem browse_dropdowns_deduplicated_witness:
  "map option_value (industry_options example_table) = [Some [], Some (str ''FinTech''), None]
   \<and> map option_value (location_options example_table)
       = [Some [], Some (str ''Pune''), Some (str ''Delhi'')]
   \<and> distinct (new_Set (map industry example_table))
   \<and> set (new_Set (map location example_table)) = location ` set example_table"
proof -
  have run: "map option_value (industry_options example_table) = [Some [], Some (str ''FinTech''), None]
      \<and> map option_value (location_options example_table)
       = [Some [], Some (str ''Pune''), Some (str ''Delhi'')]"
    by code_simp
  from browse_dropdowns_deduplicated [of example_table]
  have "distinct (new_Set (map industry example_table))"
    and "set (new_Set (map location example_table)) = location ` set example_table"
    by blast+
  with run show ?thesis by blast
qed

section \<open>Properties of the validation of the form\<close>

lemma trim_Nil: "trim [] = []"
  by (simp add: trim_def)

lemma foldl_check_required_keys:
  "fst ` set (foldl (check_required fd) m fs) = fst ` set m \<union> {f \<in> set fs. field_blank fd f}"
  by (induction fs arbitrary: m) (auto simp: check_required_def dom_update)

lemma keys_validation_of:
  "fst ` set (validation_of fd) =
     {f \<in> set requiredFields. field_blank fd f} \<union> (if skills_too_short fd then {''skills''} else {})"
  unfolding validation_of_def Let_def
  by (simp add: foldl_check_required_keys dom_update)

lemma field_blank_iff:
  "field_blank fd f \<longleftrightarrow> \<not> (case map_of fd f of None \<Rightarrow> False | Some v \<Rightarrow> trim v \<noteq> [])"
  by (auto simp: field_blank_def trim_Nil split: option.splits)

lemma required_present_iff:
  "required_present fd \<longleftrightarrow> {f \<in> set requiredFields. field_blank fd f} = {}"
  by (auto simp: required_present_def list_all_iff field_blank_iff)

lemma validateForm_iff:
  "snd (validateForm st) \<longleftrightarrow> required_present (formData st) \<and> \<not> skills_too_short (formData st)"
proof -
  have "snd (validateForm st) \<longleftrightarrow> fst ` set (validation_of (formData st)) = {}"
    by (simp add: validateForm_def Let_def)
  also have "\<dots> \<longleftrightarrow> required_present (formData st) \<and> \<not> skills_too_short (formData st)"
    unfolding keys_validation_of required_present_iff by simp
  finally show ?thesis .
qed

lemma skills_too_short_iff: "skills_too_short fd \<longleftrightarrow> (\<exists>c. map_of fd ''skills'' = Some [c])"
proof (cases "map_of fd ''skills''")
  case None
  then show ?thesis by (simp add: skills_too_short_def)
next
  case (Some v)
  have "v \<noteq> [] \<and> length v < 2 \<longleftrightarrow> (\<exists>c. v = [c])"
    by (cases v) auto
  with Some show ?thesis by (simp add: skills_too_short_def)
qed

lemma formData_validateForm: "formData (fst (validateForm st)) = formData st"
  by (simp add: validateForm_def Let_def)

lemma handleSubmit_request_payload:
  "snd (handleSubmit_request st) = (if snd (validateForm st) then Some (formData st) else None)"
  by (simp add: handleSubmit_request_def split_beta formData_validateForm)

lemma handleSubmit_request_error:
  "error (fst (handleSubmit_request st)) =
     (if snd (validateForm st) then [] else ''Please fill in all required fields correctly.'')"
  by (simp add: handleSubmit_request_def split_beta)

text \<open>
  Claim C4, as stated, fails: a form with every required field filled in whose skill is
  the single letter 'C' (chosen from the skills the form offers) is rejected.
  \<open>validateForm\<close> has a second test, on the length of the skills value.
\<close>

theorem validateForm_counterexample:
  "formData (run_events initial_app_state example_events_C) = example_form_C
   \<and> required_present example_form_C
   \<and> \<not> snd (validateForm (initial_app_state\<lparr>formData := example_form_C\<rparr>))
   \<and> snd (handleSubmit_request (initial_app_state\<lparr>formData := example_form_C\<rparr>)) = None
   \<and> \<not> (snd (validateForm (initial_app_state\<lparr>formData := example_form_C\<rparr>))
          \<longleftrightarrow> required_present (formData (initial_app_state\<lparr>formData := example_form_C\<rparr>)))"
proof -
  have present: "required_present example_form_C"
    by code_simp
  have short: "skills_too_short example_form_C"
    by code_simp
  have rejected: "\<not> snd (validateForm (initial_app_state\<lparr>formData := example_form_C\<rparr>))"
    using short by (simp add: validateForm_iff)
  then have "snd (handleSubmit_request (initial_app_state\<lparr>formData := example_form_C\<rparr>)) = None"
    by (simp add: handleSubmit_request_payload)
  moreover have "formData (run_events initial_app_state example_events_C) = example_form_C"
    by code_simp
  ultimately show ?thesis using present rejected by simp
qed

text \<open>
  Claim C4, amended. A submission is accepted if and only if every required field
  (skills, education level, sector interest, location preference) is present and not
  empty once trimmed (by \<open>trim\<close>, which removes every white space and line terminator
  of ECMAScript), and the skills value is not a single code unit. An accepted
  submission is forwarded: the payload posted is the form data and the general error is
  cleared. A rejected one posts nothing and sets the general error
  'Please fill in all required fields correctly.'.
\<close>

theorem validateForm_accepts_iff:
  "(snd (validateForm st) \<longleftrightarrow> required_present (formData st) \<and> \<not> skills_too_short (formData st))
   \<and> (skills_too_short (formData st) \<longleftrightarrow> (\<exists>c. map_of (formData st) ''skills'' = Some [c]))
   \<and> snd (handleSubmit_request st) = (if snd (validateForm st) then Some (formData st) else None)
   \<and> error (fst (handleSubmit_request st)) =
        (if snd (validateForm st) then [] else ''Please fill in all required fields correctly.'')"
  using validateForm_iff [of st] skills_too_short_iff [of "formData st"]
    handleSubmit_request_payload [of st] handleSubmit_request_error [of st]
  by blast

theorem validateForm_accepts_iff_witness:
  "required_present example_form_python \<and> \<not> skills_too_short example_form_python
   \<and> \<not> required_present example_form_nbsp
   \<and> snd (handleSubmit_request (initial_app_state\<lparr>formData := example_form_nbsp\<rparr>)) = None
   \<and> snd (handleSubmit_request (initial_app_state\<lparr>formData := example_form_python\<rparr>))
       = Some example_form_python
   \<and> \<not> required_present initial_formData
   \<and> snd (handleSubmit_request initial_app_state) = None
   \<and> error (fst (handleSubmit_request initial_app_state))
       = ''Please fill in all required fields correctly.''"
proof -
  have present: "required_present example_form_python"
    by code_simp
  have long: "\<not> skills_too_short example_form_python"
    by code_simp
  have absent: "\<not> required_present initial_formData"
    by code_simp
  have init: "formData initial_app_state = initial_formData"
    by (simp add: initial_app_state_def)
  from present long
    validateForm_accepts_iff [of "initial_app_state\<lparr>formData := example_form_python\<rparr>"]
  have accepted: "snd (handleSubmit_request (initial_app_state\<lparr>formData := example_form_python\<rparr>))
       = Some example_form_python"
    by simp
  have nbsp: "\<not> required_present example_form_nbsp"
    by code_simp
  with validateForm_accepts_iff [of "initial_app_state\<lparr>formData := example_form_nbsp\<rparr>"]
  have refused: "snd (handleSubmit_request (initial_app_state\<lparr>formData := example_form_nbsp\<rparr>)) = None"
    by simp
  from absent init validateForm_accepts_iff [of initial_app_state]
  have "snd (handleSubmit_request initial_app_state) = None"
    and "error (fst (handleSubmit_request initial_app_state))
       = ''Please fill in all required fields correctly.''"
    by simp_all
  with present long absent accepted nbsp refused show ?thesis by blast
qed

section \<open>Properties of the payload\<close>

lemma keys_initial_formData: "map fst initial_formData = payload_fields"
  by (simp add: initial_formData_def payload_fields_def)

lemma change_event_field: "change_event st (f, v) \<Longrightarrow> f \<in> set payload_fields"
  by (auto simp: change_event_def renderForm_fields_def payload_fields_def list_ex_iff)

lemma formData_submit_form: "formData (fst (submit_form st)) = formData st"
  by (simp add: submit_form_def handleSubmit_request_def validateForm_def Let_def)

lemma app_step_keys:
  assumes "map fst (formData st) = payload_fields"
  shows "map fst (formData (app_step st ev)) = payload_fields"
proof (cases ev)
  case (Change f v)
  with assms show ?thesis
    by (auto simp: handleInputChange_def update_keys dest: change_event_field)
next
  case (OptionsSettled outcome)
  with assms show ?thesis
    by (cases outcome) (simp_all add: loadOptions_def)
next
  case (HealthSettled outcome)
  with assms show ?thesis
    by (cases outcome) (simp_all add: checkSystemHealth_def Let_def)
next
  case SubmitForm
  with assms show ?thesis
    by (simp add: formData_submit_form)
next
  case (RequestRejected err)
  with assms show ?thesis
    by (simp add: handleSubmit_rejected_def)
qed

lemma run_events_keys:
  "map fst (formData st) = payload_fields \<Longrightarrow> map fst (formData (run_events st evs)) = payload_fields"
  unfolding run_events_def
  by (induction evs arbitrary: st) (simp_all add: app_step_keys)

lemma submit_form_payload:
  "snd (submit_form st) = Some p \<Longrightarrow> p = formData st"
  by (auto simp: submit_form_def handleSubmit_request_def validateForm_def Let_def
        split: if_splits)

text \<open>
  Claim C8. Whatever has happened to the form since it was first shown, its form data
  has exactly the six fields skills, education_level, sector_interest,
  location_preference, experience and aspirations, each holding a string, and a payload
  that is posted is this form data. The form renders one control for each of the six
  fields, and the control of skills is a select, which holds one of its option values
  at a time: nothing in the form splits or joins comma-separated skills.
\<close>

theorem payload_six_fields:
  "map fst (formData (run_events initial_app_state evs)) = payload_fields
   \<and> (\<forall>p. snd (submit_form (run_events initial_app_state evs)) = Some p \<longrightarrow>
          p = formData (run_events initial_app_state evs) \<and> map fst p = payload_fields)
   \<and> set (map field_name (renderForm_fields st)) = set payload_fields
   \<and> distinct (map field_name (renderForm_fields st))
   \<and> map field_type (filter (\<lambda>ff. field_name ff = ''skills'') (renderForm_fields st))
        = [''select'']"
proof -
  have start: "map fst (formData initial_app_state) = payload_fields"
    by (simp add: initial_app_state_def keys_initial_formData)
  then have keys: "map fst (formData (run_events initial_app_state evs)) = payload_fields"
    by (rule run_events_keys)
  have controls: "set (map field_name (renderForm_fields st)) = set payload_fields"
    "distinct (map field_name (renderForm_fields st))"
    "map field_type (filter (\<lambda>ff. field_name ff = ''skills'') (renderForm_fields st)) = [''select'']"
    by (auto simp: renderForm_fields_def payload_fields_def)
  from keys controls show ?thesis
    by (auto dest: submit_form_payload)
qed

theorem payload_six_fields_witness:
  "snd (submit_form (run_events initial_app_state example_events))
     = Some (AList.update ''aspirations'' (str ''Data Analyst'') example_form_python)
   \<and> map fst (AList.update ''aspirations'' (str ''Data Analyst'') example_form_python) = payload_fields"
proof -
  have run: "snd (submit_form (run_events initial_app_state example_events))
     = Some (AList.update ''aspirations'' (str ''Data Analyst'') example_form_python)"
    by code_simp
  with payload_six_fields [of example_events initial_app_state]
  show ?thesis by blast
qed

section \<open>Properties of the health check and of a refused request\<close>

lemma app_step_health:
  assumes "engine_initialized (systemHealth (app_step st ev))"
  shows "engine_initialized (systemHealth st)
         \<or> (case ev of HealthSettled (Resolved d) \<Rightarrow> engine_initialized (Some d) | _ \<Rightarrow> False)"
proof (cases ev)
  case (Change f v)
  with assms show ?thesis
    by (simp add: handleInputChange_def split: if_splits)
next
  case (OptionsSettled outcome)
  with assms show ?thesis
    by (cases outcome) (simp_all add: loadOptions_def)
next
  case (HealthSettled outcome)
  with assms show ?thesis
    by (cases outcome) (simp_all add: checkSystemHealth_def Let_def split: if_splits)
next
  case SubmitForm
  with assms show ?thesis
    by (simp add: submit_form_def handleSubmit_request_def validateForm_def Let_def
          split: if_splits)
next
  case (RequestRejected err)
  with assms show ?thesis
    by (simp add: handleSubmit_rejected_def)
qed

lemma foldl_app_step_health:
  "engine_initialized (systemHealth (foldl app_step st evs)) \<Longrightarrow>
     engine_initialized (systemHealth st) \<or> reported_initialized evs"
proof (induction evs arbitrary: st)
  case Nil
  then show ?case by simp
next
  case (Cons ev evs)
  from Cons.IH [of "app_step st ev"] Cons.prems
  have "engine_initialized (systemHealth (app_step st ev)) \<or> reported_initialized evs"
    by simp
  then show ?case
    using app_step_health [of st ev] by (auto simp: reported_initialized_def)
qed

lemma run_events_health:
  "engine_initialized (systemHealth (run_events initial_app_state evs)) \<Longrightarrow>
     reported_initialized evs"
  using foldl_app_step_health [of initial_app_state evs]
  by (simp add: run_events_def initial_app_state_def engine_initialized_def)

lemma submit_form_blocked:
  "\<not> engine_initialized (systemHealth st) \<Longrightarrow> submit_form st = (st, None)"
  by (simp add: submit_form_def submit_disabled_def)

lemma errorMessage_503:
  assumes "response err = Some r" "http_status r = Some 503" "code err \<noteq> Some ''ECONNABORTED''"
  shows "errorMessage err = ''Service temporarily unavailable. Please wait a moment and try again.''"
  using assms by (simp add: errorMessage_def)

text \<open>
  Claim C6. The form is the caller of the recommendation operation. When the health
  check answers that the engine is not initialized, the form shows 'System is
  initializing. Please wait a moment and try again.' and its submit button is disabled.
  While the stored health does not report an initialized engine, a submission changes
  nothing and posts nothing; a payload is posted only after a health response that
  reported the engine initialized. A request refused with status 503 (the request was
  answered, so its code is not that of an aborted connection) ends with the message
  'Service temporarily unavailable. Please wait a moment and try again.', the form shown
  again and not loading, so that the submit button is disabled afterwards exactly when
  the engine is not reported initialized.
\<close>

theorem engine_not_initialized_is_retryable:
  "(\<not> engine_initialized (Some d) \<longrightarrow>
      error (checkSystemHealth st (Resolved d))
        = ''System is initializing. Please wait a moment and try again.''
      \<and> submit_disabled (checkSystemHealth st (Resolved d)))
   \<and> (\<not> engine_initialized (systemHealth st) \<longrightarrow> submit_form st = (st, None))
   \<and> (snd (submit_form (run_events initial_app_state evs)) \<noteq> None \<longrightarrow> reported_initialized evs)
   \<and> (response err = Some r \<and> http_status r = Some 503 \<and> code err \<noteq> Some ''ECONNABORTED'' \<longrightarrow>
        handleSubmit_rejected st err
          = st\<lparr>error := ''Service temporarily unavailable. Please wait a moment and try again.'',
               step := ''form'', loading := False\<rparr>
        \<and> (submit_disabled (handleSubmit_rejected st err)
             \<longleftrightarrow> \<not> engine_initialized (systemHealth st)))"
proof -
  have health: "error (checkSystemHealth st (Resolved d))
        = ''System is initializing. Please wait a moment and try again.''
      \<and> submit_disabled (checkSystemHealth st (Resolved d))"
    if "\<not> engine_initialized (Some d)"
    using that by (simp add: checkSystemHealth_def Let_def submit_disabled_def)
  have posted: "reported_initialized evs"
    if "snd (submit_form (run_events initial_app_state evs)) \<noteq> None"
  proof -
    from that have "engine_initialized (systemHealth (run_events initial_app_state evs))"
      by (auto simp: submit_form_def submit_disabled_def split: if_splits)
    then show ?thesis by (rule run_events_health)
  qed
  have refused: "handleSubmit_rejected st err
          = st\<lparr>error := ''Service temporarily unavailable. Please wait a moment and try again.'',
               step := ''form'', loading := False\<rparr>
        \<and> (submit_disabled (handleSubmit_rejected st err)
             \<longleftrightarrow> \<not> engine_initialized (systemHealth st))"
    if "response err = Some r" "http_status r = Some 503" "code err \<noteq> Some ''ECONNABORTED''"
    using errorMessage_503 [OF that]
    by (simp add: handleSubmit_rejected_def submit_disabled_def)
  from health posted refused submit_form_blocked [of st] show ?thesis
    by blast
qed

theorem engine_not_initialized_is_retryable_witness:
  "\<not> engine_initialized (Some example_health_initializing)
   \<and> error (checkSystemHealth initial_app_state (Resolved example_health_initializing))
       = ''System is initializing. Please wait a moment and try again.''
   \<and> \<not> engine_initialized (systemHealth initial_app_state)
   \<and> submit_form initial_app_state = (initial_app_state, None)
   \<and> snd (submit_form (run_events initial_app_state example_events)) \<noteq> None
   \<and> reported_initialized example_events
   \<and> response example_error_503
       = Some \<lparr>http_status = Some 503, data_error = Some ''Recommendation engine not initialized''\<rparr>
   \<and> code example_error_503 \<noteq> Some ''ECONNABORTED''
   \<and> error (handleSubmit_rejected initial_app_state example_error_503)
       = ''Service temporarily unavailable. Please wait a moment and try again.''"
proof -
  have h1: "\<not> engine_initialized (Some example_health_initializing)"
    by code_simp
  have h2: "\<not> engine_initialized (systemHealth initial_app_state)"
    by code_simp
  have h3: "snd (submit_form (run_events initial_app_state example_events)) \<noteq> None"
    by code_simp
  have h4: "response example_error_503
       = Some \<lparr>http_status = Some 503, data_error = Some ''Recommendation engine not initialized''\<rparr>"
    "http_status \<lparr>http_status = Some 503, data_error = Some ''Recommendation engine not initialized''\<rparr>
       = Some 503"
    "code example_error_503 \<noteq> Some ''ECONNABORTED''"
    by (simp_all add: example_error_503_def)
  note inst = engine_not_initialized_is_retryable
    [of example_health_initializing initial_app_state example_events example_error_503
        "\<lparr>http_status = Some 503, data_error = Some ''Recommendation engine not initialized''\<rparr>"]
  from inst h1 have c1: "error (checkSystemHealth initial_app_state (Resolved example_health_initializing))
       = ''System is initializing. Please wait a moment and try again.''"
    by blast
  from inst h2 have c2: "submit_form initial_app_state = (initial_app_state, None)"
    by blast
  from inst h3 have c3: "reported_initialized example_events"
    by blast
  from inst h4 have "handleSubmit_rejected initial_app_state example_error_503
          = initial_app_state\<lparr>error := ''Service temporarily unavailable. Please wait a moment and try again.'',
               step := ''form'', loading := False\<rparr>"
    by blast
  then have c4: "error (handleSubmit_rejected initial_app_state example_error_503)
       = ''Service temporarily unavailable. Please wait a moment and try again.''"
    by simp
  from h1 h2 h3 h4 c1 c2 c3 c4 show ?thesis by blast
qed

section \<open>Properties of the similarity and of the confidence score\<close>

lemma idf_ge_1: "df \<le> n \<Longrightarrow> 1 \<le> idf n df"
proof -
  assume "df \<le> n"
  then have "1 \<le> (1 + real n) / (1 + real df)"
    by (simp add: le_divide_eq)
  then have "0 \<le> ln ((1 + real n) / (1 + real df))"
    by (rule ln_ge_zero)
  then show ?thesis by (simp add: idf_def)
qed

lemma document_frequency_le: "document_frequency t docs \<le> length docs"
  by (simp add: document_frequency_def)

lemma tfidf_nonneg:
  assumes "\<forall>w \<in> set idfs. 0 \<le> w"
  shows "\<forall>x \<in> set (tfidf vocab idfs doc). 0 \<le> x"
  using assms by (auto simp: tfidf_def dest: set_zip_rightD)

lemma length_l2_normalize: "length (l2_normalize v) = length v"
  by (simp add: l2_normalize_def Let_def)

lemma sum_squares_nonneg: "0 \<le> sum_list (map (\<lambda>x. x * x) (v :: real list))"
  by (rule sum_list_nonneg) auto

lemma l2_norm_nonneg: "0 \<le> l2_norm v"
  by (simp add: l2_norm_def sum_squares_nonneg)

lemma l2_norm_square: "l2_norm v * l2_norm v = sum_list (map (\<lambda>x. x * x) v)"
  by (simp add: l2_norm_def sum_squares_nonneg)

lemma sum_squares_zero:
  "sum_list (map (\<lambda>x. x * x) (v :: real list)) = 0 \<Longrightarrow> list_all (\<lambda>x. x = 0) v"
proof (induction v)
  case Nil
  then show ?case by simp
next
  case (Cons x xs)
  have "0 \<le> x * x" by simp
  moreover have "0 \<le> sum_list (map (\<lambda>x. x * x) xs)" by (rule sum_squares_nonneg)
  moreover from Cons.prems have "x * x + sum_list (map (\<lambda>x. x * x) xs) = 0" by simp
  ultimately have "x * x = 0" "sum_list (map (\<lambda>x. x * x) xs) = 0"
    by linarith+
  with Cons.IH show ?case by simp
qed

lemma l2_norm_zero: "l2_norm v = 0 \<Longrightarrow> list_all (\<lambda>x. x = 0) v"
proof -
  assume "l2_norm v = 0"
  then have "sum_list (map (\<lambda>x. x * x) v) = 0"
    using l2_norm_square [of v] by simp
  then show ?thesis by (rule sum_squares_zero)
qed

lemma l2_normalize_nonneg:
  assumes "\<forall>x \<in> set v. 0 \<le> x"
  shows "\<forall>x \<in> set (l2_normalize v). 0 \<le> x"
  using assms l2_norm_nonneg [of v] by (auto simp: l2_normalize_def Let_def)

lemma sum_list_divide: "sum_list (map (\<lambda>x. f x / (c :: real)) xs) = sum_list (map f xs) / c"
  by (induction xs) (simp_all add: add_divide_distrib)

lemma l2_normalize_unit:
  assumes "l2_norm v \<noteq> 0"
  shows "sum_list (map (\<lambda>x. x * x) (l2_normalize v)) = 1"
proof -
  let ?n = "l2_norm v"
  have "sum_list (map (\<lambda>x. x * x) (l2_normalize v))
          = sum_list (map (\<lambda>x. (x * x) / (?n * ?n)) v)"
    using assms by (simp add: l2_normalize_def Let_def comp_def)
  also have "\<dots> = sum_list (map (\<lambda>x. x * x) v) / (?n * ?n)"
    by (rule sum_list_divide)
  also have "\<dots> = 1"
    using assms by (simp add: l2_norm_square [symmetric])
  finally show ?thesis .
qed

lemma l2_normalize_zero_or_unit:
  "list_all (\<lambda>x. x = 0) (l2_normalize v) \<or> sum_list (map (\<lambda>x. x * x) (l2_normalize v)) = 1"
proof (cases "l2_norm v = 0")
  case True
  then have "list_all (\<lambda>x. x = 0) v" by (rule l2_norm_zero)
  with True show ?thesis by (simp add: l2_normalize_def)
next
  case False
  then show ?thesis by (simp add: l2_normalize_unit)
qed

lemma dot_nonneg:
  assumes "\<forall>x \<in> set u. 0 \<le> x" "\<forall>x \<in> set v. 0 \<le> x"
  shows "0 \<le> dot u v"
  unfolding dot_def
proof (rule sum_list_nonneg)
  fix y assume "y \<in> set (map2 (\<lambda>a b. a * b) u v)"
  then obtain a b where ab: "(a, b) \<in> set (zip u v)" and y: "y = a * b" by auto
  from ab have "a \<in> set u" "b \<in> set v"
    by (auto dest: set_zip_leftD set_zip_rightD)
  with assms have "0 \<le> a" "0 \<le> b" by auto
  with y show "0 \<le> y" by simp
qed

lemma sum_squared_differences:
  "length u = length v \<Longrightarrow>
     sum_list (map2 (\<lambda>a b. (a - b) * (a - b)) u v)
       = sum_list (map (\<lambda>x. x * x) u) + sum_list (map (\<lambda>x. x * x) v) - 2 * dot u (v :: real list)"
  by (induction u v rule: list_induct2) (simp_all add: dot_def algebra_simps)

lemma dot_unit_le_1:
  assumes "length u = length v"
    and "sum_list (map (\<lambda>x. x * x) u) = 1" and "sum_list (map (\<lambda>x. x * x) v) = 1"
  shows "dot u v \<le> 1"
proof -
  have "0 \<le> sum_list (map2 (\<lambda>a b. (a - b) * (a - b)) u v)"
    by (rule sum_list_nonneg) auto
  with assms show ?thesis
    by (simp add: sum_squared_differences)
qed

lemma cosine_similarity_bounds:
  assumes "length u = length v"
    and "\<forall>x \<in> set u. 0 \<le> x" and "\<forall>x \<in> set v. 0 \<le> x"
    and "list_all (\<lambda>x. x = 0) u \<or> sum_list (map (\<lambda>x. x * x) u) = 1"
    and "list_all (\<lambda>x. x = 0) v \<or> sum_list (map (\<lambda>x. x * x) v) = 1"
  shows "0 \<le> cosine_similarity u v \<and> cosine_similarity u v \<le> 1"
proof (cases "list_all (\<lambda>x. x = 0) u \<or> list_all (\<lambda>x. x = 0) v")
  case True
  then show ?thesis by (simp add: cosine_similarity_def)
next
  case False
  with assms have "dot u v \<le> 1" by (auto intro: dot_unit_le_1)
  moreover from assms have "0 \<le> dot u v" by (auto intro: dot_nonneg)
  ultimately show ?thesis using False by (simp add: cosine_similarity_def)
qed

lemma fit_idf_nonneg: "\<forall>w \<in> set (idf_weights (fit corpus)). 0 \<le> w"
proof
  fix w assume "w \<in> set (idf_weights (fit corpus))"
  then obtain t where "w = idf (length (map tokens corpus)) (document_frequency t (map tokens corpus))"
    by (auto simp: fit_def Let_def)
  moreover have "1 \<le> idf (length (map tokens corpus)) (document_frequency t (map tokens corpus))"
    by (rule idf_ge_1) (rule document_frequency_le)
  ultimately show "0 \<le> w" by simp
qed

lemma length_transform: "length (transform m d) = min (length (vocabulary m)) (length (idf_weights m))"
  by (simp add: transform_def length_l2_normalize tfidf_def)

lemma transform_fit_nonneg: "\<forall>x \<in> set (transform (fit corpus) d). 0 \<le> x"
  unfolding transform_def
  by (intro l2_normalize_nonneg tfidf_nonneg fit_idf_nonneg)

lemma transform_zero_or_unit:
  "list_all (\<lambda>x. x = 0) (transform m d) \<or> sum_list (map (\<lambda>x. x * x) (transform m d)) = 1"
  unfolding transform_def by (rule l2_normalize_zero_or_unit)

lemma similarity_transform_bounds:
  "0 \<le> cosine_similarity (transform (fit corpus) d1) (transform (fit corpus) d2)
   \<and> cosine_similarity (transform (fit corpus) d1) (transform (fit corpus) d2) \<le> 1"
  by (intro cosine_similarity_bounds transform_fit_nonneg transform_zero_or_unit)
     (simp add: length_transform)

lemma posting_vectors_fit: "posting_vectors (fit corpus) = map (transform (fit corpus)) corpus"
  by (simp add: fit_def transform_def Let_def comp_def)

lemma clamp01_bounds: "0 \<le> clamp01 x \<and> clamp01 x \<le> 1"
  by (simp add: clamp01_def)

lemma round_percent_bounds:
  assumes "0 \<le> x" "x \<le> (1 :: real)"
  shows "0 \<le> round (x * 100) \<and> round (x * 100) \<le> 100"
proof -
  from assms have lo: "0 \<le> x * 100" and hi: "x * 100 \<le> 100" by simp_all
  from lo have "round (0 :: real) \<le> round (x * 100)" by (rule round_mono)
  moreover from hi have "round (x * 100) \<le> round (100 :: real)" by (rule round_mono)
  ultimately show ?thesis by simp
qed

lemma composite_bounds: "0 \<le> composite cfg b \<and> composite cfg b \<le> 1"
  by (simp add: composite_def clamp01_bounds)

lemma well_scored_score:
  assumes "0 \<le> cosine_similarity u v \<and> cosine_similarity u v \<le> 1"
  shows "well_scored cfg (score cfg u p (q, v))"
proof -
  let ?r = "score cfg u p (q, v)"
  have sim: "result_similarity ?r = cosine_similarity u v"
    by (simp add: score_def Let_def)
  have conf: "result_confidence_score ?r = round (composite cfg (result_score_breakdown ?r) * 100)"
    by (simp add: score_def Let_def)
  have "0 \<le> round (composite cfg (result_score_breakdown ?r) * 100)
        \<and> round (composite cfg (result_score_breakdown ?r) * 100) \<le> 100"
    using composite_bounds by (intro round_percent_bounds) auto
  with assms sim conf show ?thesis
    by (simp add: well_scored_def)
qed

lemma well_scored_score_all: "list_all (well_scored cfg) (score_all cfg (load_catalog ps) p)"
proof -
  let ?m = "fit (map description_text ps)"
  have "well_scored cfg (score cfg (transform ?m (buildQueryDocument p)) p qv)"
    if "qv \<in> set (zip ps (posting_vectors ?m))" for qv
  proof -
    obtain a b where qv: "qv = (a, b)" by (cases qv)
    with that have "(a, b) \<in> set (zip ps (posting_vectors ?m))" by simp
    then have "b \<in> set (posting_vectors ?m)" by (rule set_zip_rightD)
    then obtain d where b: "b = transform ?m d"
      by (auto simp: posting_vectors_fit)
    have "well_scored cfg (score cfg (transform ?m (buildQueryDocument p)) p (a, transform ?m d))"
      by (intro well_scored_score similarity_transform_bounds)
    with qv b show ?thesis by simp
  qed
  then show ?thesis
    by (simp add: score_all_def load_catalog_def list_all_iff)
qed

lemma list_all_top_ranked: "list_all P rs \<Longrightarrow> list_all P (top_ranked n rs)"
  by (auto simp: top_ranked_def rank_def list_all_iff dest: in_set_takeD)

lemma recommend_eq:
  "recommend cfg (Some e) p =
     (if valid_profile p then Inr (top_ranked (top_n cfg) (score_all cfg e p))
      else Inl ValidationError)"
  by (simp add: recommend_def)

text \<open>
  Claim C1. For every configuration, every corpus the model is fitted on, every
  profile and every posting, the result scored from the query's and the posting's
  vectors has a similarity in [0,1] and a confidence score that is the composite score
  times 100, rounded, an integer from 0 to 100; the composite score is the weighted sum
  of the four components of the breakdown clamped to [0,1]. The same holds for every
  result the recommendation operation returns for a catalog. (Over the real numbers;
  the engine is modelled from the specification.)
\<close>

theorem similarity_and_confidence_in_range:
  "well_scored cfg (score cfg (transform (fit corpus) query) p (q, transform (fit corpus) document))
   \<and> list_all (well_scored cfg) (score_all cfg (load_catalog ps) p)
   \<and> list_all (well_scored cfg) (top_ranked (top_n cfg) (score_all cfg (load_catalog ps) p))
   \<and> recommend cfg (Some (load_catalog ps)) p =
        (if valid_profile p then Inr (top_ranked (top_n cfg) (score_all cfg (load_catalog ps) p))
         else Inl ValidationError)
   \<and> composite cfg b =
        max 0 (min 1 (weight_skills cfg * skills_match b + weight_industry cfg * industry_match b
                       + weight_location cfg * location_match b
                       + weight_education cfg * education_compatibility b))
   \<and> 0 \<le> composite cfg b \<and> composite cfg b \<le> 1"
proof -
  have one: "well_scored cfg
      (score cfg (transform (fit corpus) query) p (q, transform (fit corpus) document))"
    by (intro well_scored_score similarity_transform_bounds)
  have weighted: "composite cfg b =
        max 0 (min 1 (weight_skills cfg * skills_match b + weight_industry cfg * industry_match b
                       + weight_location cfg * location_match b
                       + weight_education cfg * education_compatibility b))"
    by (simp add: composite_def clamp01_def weighted_sum_def)
  from one weighted well_scored_score_all [of cfg ps p]
    list_all_top_ranked [OF well_scored_score_all, of cfg "top_n cfg" ps p]
    recommend_eq [of cfg "load_catalog ps" p] composite_bounds [of cfg b]
  show ?thesis by blast
qed

theorem similarity_and_confidence_in_range_witness:
  "map result_similarity
       (score_all default_config (load_catalog [example_posting]) example_profile) = [1]
   \<and> map result_confidence_score
       (score_all default_config (load_catalog [example_posting]) example_profile) = [95]
   \<and> list_all (well_scored default_config)
       (score_all default_config (load_catalog [example_posting]) example_profile)"
proof -
  have tok: "tokens (description_text example_posting) = [''python'', ''technology'']"
    by code_simp
  have qtok: "tokens (buildQueryDocument example_profile)
                = [''python'', ''sql'', ''data'', ''analyst'', ''technology'']"
    by code_simp
  have m: "fit [description_text example_posting]
             = \<lparr>vocabulary = [''python'', ''technology''], idf_weights = [1, 1],
                posting_vectors = [[1 / sqrt 2, 1 / sqrt 2]]\<rparr>"
    by (simp add: fit_def tok Let_def idf_def document_frequency_def tfidf_def
          l2_normalize_def l2_norm_def)
  have q: "transform (fit [description_text example_posting]) (buildQueryDocument example_profile)
             = [1 / sqrt 2, 1 / sqrt 2]"
    by (simp add: m transform_def qtok tfidf_def l2_normalize_def l2_norm_def Let_def)
  have cs: "cosine_similarity [1 / sqrt 2, 1 / sqrt 2] [1 / sqrt 2, 1 / sqrt 2] = 1"
    by (simp add: cosine_similarity_def dot_def)
  have ind: "industry_score example_profile example_posting = 1"
    unfolding industry_score_def by code_simp
  have "lowercase (cp_location_preference example_profile)
          = lowercase (posting_location example_posting)"
    by code_simp
  then have loc: "location_score default_config example_profile example_posting = 1"
    by (simp add: location_score_def)
  have edu: "education_score default_config example_profile = 1 / 2"
    by (simp add: education_score_def default_config_def)
  have comp: "composite default_config
                \<lparr>skills_match = 1, industry_match = 1, location_match = 1,
                 education_compatibility = 1 / 2\<rparr> = 19 / 20"
    by (simp add: composite_def weighted_sum_def clamp01_def default_config_def)
  have run: "map result_similarity
       (score_all default_config (load_catalog [example_posting]) example_profile) = [1]
   \<and> map result_confidence_score
       (score_all default_config (load_catalog [example_posting]) example_profile) = [95]"
    by (simp add: score_all_def load_catalog_def m q [unfolded m] score_def Let_def cs ind loc
          edu comp)
  from similarity_and_confidence_in_range
    [of default_config "[]" "[]" example_profile example_posting "[]" "[example_posting]"]
  have "list_all (well_scored default_config)
       (score_all default_config (load_catalog [example_posting]) example_profile)"
    by blast
  with run show ?thesis by blast
qed

section \<open>Properties of the skill gap analysis\<close>

lemma matching_skills_analyze:
  "matching_skills (analyze cs req) = filter (\<lambda>s. skill_token s \<in> cs) req"
  by (simp add: analyze_def Let_def)

lemma missing_skills_analyze:
  "missing_skills (analyze cs req) = filter (\<lambda>s. skill_token s \<notin> cs) req"
  by (simp add: analyze_def Let_def)

lemma match_percentage_analyze:
  "match_percentage (analyze cs req) =
     (if req = [] then 0
      else real (length (matching_skills (analyze cs req))) / real (length req))"
  by (simp add: analyze_def Let_def)

text \<open>
  Claim C2. For every set of candidate skill tokens and every sequence of required
  skills, the matching and the missing skills together are the required skills, each
  occurrence exactly once (as multisets, and so as sets), each list in the posting's
  order; no token of a matching skill is the token of a missing skill, and the tokens
  of the two lists together are the tokens of the required skills. The match percentage
  is the number of matching skills divided by the number of required skills, and 0 when
  nothing is required. (The analyzer is modelled from the specification.)
\<close>

theorem analyze_partitions_required_skills:
  "mset (matching_skills (analyze cs req)) + mset (missing_skills (analyze cs req)) = mset req
   \<and> set (matching_skills (analyze cs req)) \<union> set (missing_skills (analyze cs req)) = set req
   \<and> set (matching_skills (analyze cs req)) \<inter> set (missing_skills (analyze cs req)) = {}
   \<and> skill_token ` set (matching_skills (analyze cs req))
        \<inter> skill_token ` set (missing_skills (analyze cs req)) = {}
   \<and> skill_token ` set (matching_skills (analyze cs req))
        \<union> skill_token ` set (missing_skills (analyze cs req)) = skill_token ` set req
   \<and> subseq (matching_skills (analyze cs req)) req
   \<and> subseq (missing_skills (analyze cs req)) req
   \<and> match_percentage (analyze cs req) =
        (if req = [] then 0
         else real (length (matching_skills (analyze cs req))) / real (length req))"
proof -
  have parts: "mset (matching_skills (analyze cs req)) + mset (missing_skills (analyze cs req))
                 = mset req"
    by (simp add: matching_skills_analyze missing_skills_analyze)
  have sets: "set (matching_skills (analyze cs req)) \<union> set (missing_skills (analyze cs req))
                = set req"
    "set (matching_skills (analyze cs req)) \<inter> set (missing_skills (analyze cs req)) = {}"
    by (auto simp: matching_skills_analyze missing_skills_analyze)
  have toks: "skill_token ` set (matching_skills (analyze cs req))
        \<inter> skill_token ` set (missing_skills (analyze cs req)) = {}"
    "skill_token ` set (matching_skills (analyze cs req))
        \<union> skill_token ` set (missing_skills (analyze cs req)) = skill_token ` set req"
    by (auto simp: matching_skills_analyze missing_skills_analyze)
  have order: "subseq (matching_skills (analyze cs req)) req"
    "subseq (missing_skills (analyze cs req)) req"
    by (simp_all add: matching_skills_analyze missing_skills_analyze)
  from parts sets toks order match_percentage_analyze [of cs req] show ?thesis
    by blast
qed

theorem analyze_partitions_required_skills_witness:
  "matching_skills (analyze {''python'', ''sql''} [''Python'', ''Excel'', ''SQL'']) = [''Python'', ''SQL'']
   \<and> missing_skills (analyze {''python'', ''sql''} [''Python'', ''Excel'', ''SQL'']) = [''Excel'']
   \<and> match_percentage (analyze {''python'', ''sql''} [''Python'', ''Excel'', ''SQL'']) = 2 / 3
   \<and> match_percentage (analyze {''python'', ''sql''} []) = 0"
proof -
  have lists: "matching_skills (analyze {''python'', ''sql''} [''Python'', ''Excel'', ''SQL''])
                 = [''Python'', ''SQL'']"
    "missing_skills (analyze {''python'', ''sql''} [''Python'', ''Excel'', ''SQL'']) = [''Excel'']"
    by code_simp+
  from analyze_partitions_required_skills [of "{''python'', ''sql''}" "[''Python'', ''Excel'', ''SQL'']"]
  have "match_percentage (analyze {''python'', ''sql''} [''Python'', ''Excel'', ''SQL'']) =
          real (length (matching_skills (analyze {''python'', ''sql''} [''Python'', ''Excel'', ''SQL'']))) / real (length [''Python'', ''Excel'', ''SQL''])"
    by simp
  with lists have pct: "match_percentage (analyze {''python'', ''sql''} [''Python'', ''Excel'', ''SQL'']) = 2 / 3"
    by simp
  from analyze_partitions_required_skills [of "{''python'', ''sql''}" "[]"]
  have "match_percentage (analyze {''python'', ''sql''} []) = 0"
    by simp
  with lists pct show ?thesis by blast
qed

section \<open>Properties of the ranking\<close>

lemma rank_key_le: "rank_key a \<le> rank_key b \<longleftrightarrow> ranked_before a b"
  by (auto simp: rank_key_def ranked_before_def less_eq_prod_def)

lemma sorted_wrt_rank: "sorted_wrt ranked_before (rank rs)"
proof -
  have "sorted (map rank_key (sort_key rank_key rs))" by (rule sorted_sort_key)
  then show ?thesis by (simp add: rank_def sorted_map rank_key_le)
qed

lemma sorted_wrt_top_ranked: "sorted_wrt ranked_before (top_ranked n rs)"
  unfolding top_ranked_def by (rule sorted_wrt_take) (rule sorted_wrt_rank)

lemma mset_rank: "mset (rank rs) = mset rs"
  by (simp add: rank_def)

lemma inj_on_rank_key:
  assumes "distinct (map result_posting_id rs)"
  shows "inj_on rank_key (set rs)"
proof (rule inj_onI)
  fix a b assume "a \<in> set rs" "b \<in> set rs" "rank_key a = rank_key b"
  then have "result_posting_id a = result_posting_id b" by (simp add: rank_key_def)
  moreover from assms have "inj_on result_posting_id (set rs)" by (simp add: distinct_map)
  ultimately show "a = b" using \<open>a \<in> set rs\<close> \<open>b \<in> set rs\<close> by (auto dest: inj_onD)
qed

lemma rank_permutation_invariant:
  assumes "mset rs' = mset rs" and "distinct (map result_posting_id rs)"
  shows "rank rs' = rank rs"
proof -
  from assms(1) have sets: "set rs' = set rs" by (rule mset_eq_setD)
  from assms(2) have inj: "inj_on rank_key (set rs)" by (rule inj_on_rank_key)
  from assms(2) have "distinct rs" by (simp add: distinct_map)
  with inj have d: "distinct (map rank_key rs)" by (simp add: distinct_map)
  have m: "mset (map rank_key (rank rs')) = mset (map rank_key rs)"
    "mset (map rank_key (rank rs)) = mset (map rank_key rs)"
    using assms(1) by (simp_all add: mset_rank)
  from m d have d1: "distinct (map rank_key (rank rs'))" and d2: "distinct (map rank_key (rank rs))"
    by (metis mset_eq_imp_distinct_iff)+
  from m have s: "set (map rank_key (rank rs')) = set (map rank_key (rank rs))"
    by (metis mset_eq_setD)
  have "sorted (map rank_key (rank rs'))" "sorted (map rank_key (rank rs))"
    by (simp_all add: rank_def)
  with d1 d2 s have "map rank_key (rank rs') = map rank_key (rank rs)"
    by (intro sorted_distinct_set_unique)
  moreover have "inj_on rank_key (set (rank rs') \<union> set (rank rs))"
    using inj sets by (simp add: rank_def)
  ultimately show ?thesis by (simp add: inj_on_map_eq_map)
qed

text \<open>
  Claim C3. The list the ranker returns is sorted by confidence score descending, with
  equal scores in the order of ascending posting id: every earlier result has a higher
  score than every later one, or the same score and an id that is not greater. So the
  score never increases from a result to the next, and results of equal score follow
  ascending ids. The ranked list is a rearrangement of the scored results, and when the
  posting ids are unique it does not depend on the order in which the results were
  scored: the same results give the same list. The recommendation operation returns
  this list for a valid profile. (The ranker is modelled from the specification.)
\<close>

theorem ranking_sorted_and_deterministic:
  "sorted_wrt ranked_before (top_ranked n rs)
   \<and> (\<forall>i. Suc i < length (top_ranked n rs) \<longrightarrow>
          result_confidence_score (top_ranked n rs ! Suc i)
            \<le> result_confidence_score (top_ranked n rs ! i))
   \<and> (\<forall>i j. i < j \<and> j < length (top_ranked n rs)
             \<and> result_confidence_score (top_ranked n rs ! i)
                 = result_confidence_score (top_ranked n rs ! j) \<longrightarrow>
          result_posting_id (top_ranked n rs ! i) \<le> result_posting_id (top_ranked n rs ! j))
   \<and> mset (rank rs) = mset rs
   \<and> (mset rs' = mset rs \<and> distinct (map result_posting_id rs) \<longrightarrow>
        top_ranked n rs' = top_ranked n rs)
   \<and> recommend cfg (Some e) p =
        (if valid_profile p then Inr (top_ranked (top_n cfg) (score_all cfg e p))
         else Inl ValidationError)"
proof -
  let ?xs = "top_ranked n rs"
  have pairs: "ranked_before (?xs ! i) (?xs ! j)" if "i < j" "j < length ?xs" for i j
    using sorted_wrt_top_ranked [of n rs] that by (simp add: sorted_wrt_iff_nth_less)
  have adjacent: "result_confidence_score (?xs ! Suc i) \<le> result_confidence_score (?xs ! i)"
    if "Suc i < length ?xs" for i
    using pairs [of i "Suc i"] that by (auto simp: ranked_before_def)
  have ties: "result_posting_id (?xs ! i) \<le> result_posting_id (?xs ! j)"
    if "i < j" "j < length ?xs"
      "result_confidence_score (?xs ! i) = result_confidence_score (?xs ! j)" for i j
    using pairs [of i j] that by (auto simp: ranked_before_def)
  have same: "top_ranked n rs' = top_ranked n rs"
    if "mset rs' = mset rs" "distinct (map result_posting_id rs)"
    using rank_permutation_invariant [OF that] by (simp add: top_ranked_def)
  have op: "recommend cfg (Some e) p =
        (if valid_profile p then Inr (top_ranked (top_n cfg) (score_all cfg e p))
         else Inl ValidationError)"
    by (simp add: recommend_def)
  from sorted_wrt_top_ranked [of n rs] adjacent ties mset_rank [of rs] same op
  show ?thesis by blast
qed

theorem ranking_sorted_and_deterministic_witness:
  "map result_posting_id (top_ranked 5 example_results) = [3, 1, 2]
   \<and> map result_confidence_score (top_ranked 5 example_results) = [90, 80, 80]
   \<and> Suc 0 < length (top_ranked 5 example_results)
   \<and> result_confidence_score (top_ranked 5 example_results ! Suc 0)
       \<le> result_confidence_score (top_ranked 5 example_results ! 0)
   \<and> result_confidence_score (top_ranked 5 example_results ! 1)
       = result_confidence_score (top_ranked 5 example_results ! 2)
   \<and> result_posting_id (top_ranked 5 example_results ! 1)
       \<le> result_posting_id (top_ranked 5 example_results ! 2)
   \<and> mset (rev example_results) = mset example_results
   \<and> distinct (map result_posting_id example_results)
   \<and> top_ranked 5 (rev example_results) = top_ranked 5 example_results"
proof -
  have run: "map result_posting_id (top_ranked 5 example_results) = [3, 1, 2]"
    "map result_confidence_score (top_ranked 5 example_results) = [90, 80, 80]"
    by code_simp+
  have len: "Suc 0 < length (top_ranked 5 example_results)"
    "(1 :: nat) < 2 \<and> 2 < length (top_ranked 5 example_results)
      \<and> result_confidence_score (top_ranked 5 example_results ! 1)
          = result_confidence_score (top_ranked 5 example_results ! 2)"
    by code_simp+
  have perm: "mset (rev example_results) = mset example_results
      \<and> distinct (map result_posting_id example_results)"
    by (simp add: example_results_def example_result_def)
  note inst = ranking_sorted_and_deterministic
    [of 5 example_results "rev example_results" default_config "load_catalog []" example_profile]
  from inst len(1) have c1: "result_confidence_score (top_ranked 5 example_results ! Suc 0)
       \<le> result_confidence_score (top_ranked 5 example_results ! 0)"
    by blast
  from inst len(2) have c2: "result_posting_id (top_ranked 5 example_results ! 1)
       \<le> result_posting_id (top_ranked 5 example_results ! 2)"
    by blast
  from inst perm have c3: "top_ranked 5 (rev example_results) = top_ranked 5 example_results"
    by blast
  from run len perm c1 c2 c3 show ?thesis by blast
qed

section \<open>Properties of an empty result\<close>

lemma score_all_empty: "score_all cfg (load_catalog []) p = []"
  by (simp add: score_all_def load_catalog_def)

lemma top_ranked_Nil: "top_ranked n [] = []"
  by (simp add: top_ranked_def rank_def)

lemma render_no_recommendations:
  assumes "\<not> page_loading st" "page_error st = []" "activeTab st = ''recommendations''"
    "recommendations st = []"
  shows "render lower st = NoRecommendations"
  using assms by (simp add: render_def)

text \<open>
  Claim C5. Over an empty catalog the recommendation operation returns the empty list
  for a valid profile, not an error, and the analytics of the empty list report 0
  recommendations, average confidence 0 and top score 0. On the page, a preloaded empty
  list needs no request and is shown by the block 'No recommendations found' (by the
  row 'No recommendations found. Try broadening inputs.' in the first version of the
  page), not by the error page; the form navigates there with such a list when a
  successful response holds no recommendation; and a page that had to fetch its data
  shows the same block when the successful response holds none; none of this depends on
  what \<open>toLowerCase\<close> is, which only the other tab reads. (The engine and the
  analytics are modelled from the specification, the form and the page from the
  sources.)
\<close>

theorem empty_result_is_not_an_error:
  "(valid_profile p \<longrightarrow> recommend cfg (Some (load_catalog [])) p = Inr [])
   \<and> total_recommendations (aggregate []) = 0
   \<and> avg_confidence (aggregate []) = 0
   \<and> top_match_score (aggregate []) = 0
   \<and> (nav_recommendations nav = Some [] \<longrightarrow>
        \<not> fetch_needed nav
        \<and> render lower (initial_page nav) = NoRecommendations
        \<and> render_table (initial_page nav)
            = RecommendationTable [MessageRow ''No recommendations found. Try broadening inputs.''])
   \<and> (success res \<and> resp_recommendations res = [] \<longrightarrow>
        (\<exists>nav'. snd (handleSubmit_resolved st res) = Some nav'
              \<and> nav_recommendations nav' = Some []
              \<and> render lower (initial_page nav') = NoRecommendations))
   \<and> (fetch_needed nav \<and> success res \<and> resp_recommendations res = [] \<longrightarrow>
        render lower (fetchData (initial_page nav) (Resolved res)) = NoRecommendations)"
proof -
  have engine: "recommend cfg (Some (load_catalog [])) p = Inr []" if "valid_profile p"
    using that by (simp add: recommend_def score_all_empty top_ranked_Nil)
  have summary: "total_recommendations (aggregate []) = 0" "avg_confidence (aggregate []) = 0"
    "top_match_score (aggregate []) = 0"
    by (simp_all add: aggregate_def)
  have preloaded: "\<not> fetch_needed nav
        \<and> render lower (initial_page nav) = NoRecommendations
        \<and> render_table (initial_page nav)
            = RecommendationTable [MessageRow ''No recommendations found. Try broadening inputs.'']"
    if "nav_recommendations nav = Some []"
    using that by (simp add: fetch_needed_def initial_page_def render_def render_table_def)
  have navigated: "\<exists>nav'. snd (handleSubmit_resolved st res) = Some nav'
              \<and> nav_recommendations nav' = Some []
              \<and> render lower (initial_page nav') = NoRecommendations"
    if "success res" "resp_recommendations res = []"
    using that by (simp add: handleSubmit_resolved_def initial_page_def render_def)
  have fetched: "render lower (fetchData (initial_page nav) (Resolved res)) = NoRecommendations"
    if "fetch_needed nav" "success res" "resp_recommendations res = []"
    using that by (simp add: fetchData_def initial_page_def render_def)
  from engine summary preloaded navigated fetched show ?thesis
    by blast
qed

theorem empty_result_is_not_an_error_witness:
  "valid_profile example_profile
   \<and> recommend default_config (Some (load_catalog [])) example_profile = Inr []
   \<and> nav_recommendations example_empty_nav = Some []
   \<and> render example_lower (initial_page example_empty_nav) = NoRecommendations
   \<and> success example_empty_response \<and> resp_recommendations example_empty_response = []
   \<and> snd (handleSubmit_resolved (initial_app_state\<lparr>formData := example_form_python\<rparr>)
            example_empty_response) = Some example_empty_nav
   \<and> fetch_needed example_fetch_nav
   \<and> render example_lower (fetchData (initial_page example_fetch_nav) (Resolved example_empty_response))
       = NoRecommendations"
proof -
  have h1: "valid_profile example_profile"
    by code_simp
  have h2: "nav_recommendations example_empty_nav = Some []"
    by (simp add: example_empty_nav_def)
  have h3: "success example_empty_response \<and> resp_recommendations example_empty_response = []"
    by (simp add: example_empty_response_def)
  have h4: "fetch_needed example_fetch_nav"
    by (simp add: fetch_needed_def example_fetch_nav_def)
  have nav: "snd (handleSubmit_resolved (initial_app_state\<lparr>formData := example_form_python\<rparr>)
            example_empty_response) = Some example_empty_nav"
    by (simp add: handleSubmit_resolved_def example_empty_response_def example_empty_nav_def)
  note inst = empty_result_is_not_an_error
    [of example_profile default_config example_empty_nav example_lower example_empty_response
        "initial_app_state\<lparr>formData := example_form_python\<rparr>"]
  from inst h1 have c1: "recommend default_config (Some (load_catalog [])) example_profile = Inr []"
    by blast
  from inst h2 have c2: "render example_lower (initial_page example_empty_nav) = NoRecommendations"
    by blast
  note inst' = empty_result_is_not_an_error
    [of example_profile default_config example_fetch_nav example_lower example_empty_response
        "initial_app_state\<lparr>formData := example_form_python\<rparr>"]
  from inst' h3 h4
  have c3: "render example_lower (fetchData (initial_page example_fetch_nav) (Resolved example_empty_response))
       = NoRecommendations"
    by blast
  from h1 h2 h3 h4 nav c1 c2 c3 show ?thesis by blast
qed

end
